theory Spec2Isabelle
  imports Main "HOL-Library.Sublist"
begin

section \<open>The skill refinement loop of \<open>demo-container/skill-refine-loop.py\<close>\<close>

text \<open>
  The model follows the Python source function by function. Python values that come out
  of \<open>json.loads\<close> are values of the datatype \<open>json\<close>; Python's \<open>None\<close> is \<open>JNull\<close>.
  Numbers are Python ints: a number with a fraction or an exponent is a float in Python
  and is outside this model. Text is a list of 8-bit characters.
  \<open>json.loads\<close> itself answers with a value or with an exception: \<open>JSONDecodeError\<close> for
  text that is not JSON, and also \<open>RecursionError\<close> (text nested too deeply) or a plain
  \<open>ValueError\<close> (an integer of more than 4300 digits), which no \<open>except\<close> clause of the
  program catches.

  Exceptions are values: a function that can raise returns \<open>py_error + 'a\<close>, with \<open>Inl\<close>
  the exception that leaves it. The two child processes (the docker run of the scenario
  and the \<open>claude\<close> fix agent) are the environment: for every attempt the world says how
  the process started for it behaves. Calls into the file system (\<open>exists\<close>, \<open>mkdir\<close>)
  are taken not to raise. The platform is one of the five values argparse accepts for
  \<open>--platform\<close>, so a lookup in \<open>PLATFORM_CONFIG\<close> never misses.
\<close>

subsection \<open>Python values\<close>

datatype json =
    JNull
  | JBool bool
  | JInt int
  | JStr string
  | JArr "json list"
  | JObj "(string \<times> json) list"

datatype py_error =
    KeyError string
  | TypeError
  | AttributeError
  | JSONDecodeError
  | ValueError
  | RecursionError

text \<open>Truth value of a Python object, as \<open>if x:\<close> and \<open>not x\<close> test it.\<close>

fun truthy :: "json \<Rightarrow> bool" where
  "truthy JNull = False"
| "truthy (JBool b) = b"
| "truthy (JInt n) = (n \<noteq> 0)"
| "truthy (JStr s) = (s \<noteq> [])"
| "truthy (JArr xs) = (xs \<noteq> [])"
| "truthy (JObj kvs) = (kvs \<noteq> [])"

text \<open>\<open>d.get(k, default)\<close> on a dict.\<close>

definition dict_get :: "(string \<times> json) list \<Rightarrow> string \<Rightarrow> json \<Rightarrow> json" where
  "dict_get kvs k dflt = (case map_of kvs k of None \<Rightarrow> dflt | Some v \<Rightarrow> v)"

text \<open>\<open>x.get(k, default)\<close> on any object: only a dict has the method.\<close>

fun py_get :: "json \<Rightarrow> string \<Rightarrow> json \<Rightarrow> py_error + json" where
  "py_get (JObj kvs) k dflt = Inr (dict_get kvs k dflt)"
| "py_get _ k dflt = Inl AttributeError"

text \<open>\<open>x[k]\<close> with a string key.\<close>

fun py_item :: "json \<Rightarrow> string \<Rightarrow> py_error + json" where
  "py_item (JObj kvs) k = (case map_of kvs k of None \<Rightarrow> Inl (KeyError k) | Some v \<Rightarrow> Inr v)"
| "py_item _ k = Inl TypeError"

text \<open>\<open>x[:n]\<close>: strings and lists can be sliced, everything else raises.\<close>

fun py_slice :: "json \<Rightarrow> nat \<Rightarrow> py_error + json" where
  "py_slice (JStr s) n = Inr (JStr (take n s))"
| "py_slice (JArr xs) n = Inr (JArr (take n xs))"
| "py_slice _ n = Inl TypeError"

text \<open>\<open>x > 0\<close> and \<open>x - 1\<close>; \<open>bool\<close> is a subclass of \<open>int\<close>.\<close>

fun py_gt0 :: "json \<Rightarrow> py_error + bool" where
  "py_gt0 (JInt k) = Inr (0 < k)"
| "py_gt0 (JBool b) = Inr b"
| "py_gt0 _ = Inl TypeError"

fun py_sub1 :: "json \<Rightarrow> py_error + json" where
  "py_sub1 (JInt k) = Inr (JInt (k - 1))"
| "py_sub1 (JBool b) = Inr (JInt ((if b then 1 else 0) - 1))"
| "py_sub1 _ = Inl TypeError"

text \<open>Sequencing of calls that can raise: the first exception ends the computation.\<close>

definition bind_err :: "py_error + 'a \<Rightarrow> ('a \<Rightarrow> py_error + 'b) \<Rightarrow> py_error + 'b" where
  "bind_err r f = (case r of Inl e \<Rightarrow> Inl e | Inr x \<Rightarrow> f x)"

text \<open>\<open>for x in xs\<close> with a body that can raise and yields a piece of text.\<close>

fun concat_err :: "('a \<Rightarrow> py_error + string) \<Rightarrow> 'a list \<Rightarrow> py_error + string" where
  "concat_err f [] = Inr []"
| "concat_err f (x # xs) =
     bind_err (f x) (\<lambda>t. bind_err (concat_err f xs) (\<lambda>ts. Inr (t @ ts)))"

text \<open>\<open>x.items()\<close>: only a dict has the method.\<close>

fun py_items :: "json \<Rightarrow> py_error + (string \<times> json) list" where
  "py_items (JObj kvs) = Inr kvs"
| "py_items _ = Inl AttributeError"

text \<open>
  \<open>for x in v\<close>: a list gives its elements, a string its characters, a dict its keys;
  nothing else can be iterated.
\<close>

fun py_iter :: "json \<Rightarrow> py_error + json list" where
  "py_iter (JArr xs) = Inr xs"
| "py_iter (JStr s) = Inr (map (\<lambda>c. JStr [c]) s)"
| "py_iter (JObj kvs) = Inr (map (\<lambda>kv. JStr (fst kv)) kvs)"
| "py_iter _ = Inl TypeError"

text \<open>\<open>str.lower()\<close> on characters below 256.\<close>

definition py_lower_char :: "char \<Rightarrow> char" where
  "py_lower_char c = (let n = of_char c :: nat in
     if (65 \<le> n \<and> n \<le> 90) \<or> (192 \<le> n \<and> n \<le> 222 \<and> n \<noteq> 215) then char_of (n + 32) else c)"

definition py_lower :: "string \<Rightarrow> string" where
  "py_lower s = map py_lower_char s"

text \<open>\<open>a in b\<close> for strings.\<close>

definition py_in :: "string \<Rightarrow> string \<Rightarrow> bool" where
  "py_in a b = sublist a b"

definition nl :: string where
  "nl = [CHR 0x0A]"

text \<open>\<open>str.strip()\<close>: the characters below 256 for which \<open>str.isspace\<close> holds.\<close>

definition py_isspace :: "char \<Rightarrow> bool" where
  "py_isspace c = (let n = of_char c :: nat in
     (9 \<le> n \<and> n \<le> 13) \<or> (28 \<le> n \<and> n \<le> 32) \<or> n = 133 \<or> n = 160)"

definition strip :: "string \<Rightarrow> string" where
  "strip s = rev (dropWhile py_isspace (rev (dropWhile py_isspace s)))"

text \<open>\<open>s.find(c)\<close> for one character: the first index, \<open>None\<close> for Python's \<open>-1\<close>.\<close>

fun find_char :: "char \<Rightarrow> string \<Rightarrow> nat option" where
  "find_char c [] = None"
| "find_char c (x # xs) = (if x = c then Some 0 else map_option Suc (find_char c xs))"

subsection \<open>Child processes\<close>

text \<open>
  What a child process does when it is started: the start itself fails with an
  exception, or the process runs for some seconds (\<open>None\<close>: it never ends by itself)
  and leaves a return code, its standard output and its standard error.
\<close>

datatype process =
    Start_fails string
  | Runs "nat option" int string string

datatype run_outcome =
    TimeoutExpired
  | Raised string
  | Completed int string string

text \<open>
  \<open>subprocess.run(cmd, capture_output=True, text=True, timeout=t)\<close>: a process still
  running after \<open>t\<close> seconds is killed and \<open>TimeoutExpired\<close> is raised.
\<close>

fun subprocess_run :: "nat \<Rightarrow> process \<Rightarrow> run_outcome" where
  "subprocess_run t (Start_fails e) = Raised e"
| "subprocess_run t (Runs None rc out err) = TimeoutExpired"
| "subprocess_run t (Runs (Some d) rc out err) =
     (if t < d then TimeoutExpired else Completed rc out err)"

subsection \<open>The test runner: \<open>run_skill_test\<close>\<close>

text \<open>The timeout of the docker run, in seconds (\<open>timeout=600\<close>).\<close>

definition skill_test_timeout :: nat where
  "skill_test_timeout = 600"

text \<open>
  The body shared by both parsing attempts (lines 256 to 263 and 268 to 275): a dict with
  \<open>status == "all_passed"\<close> returns \<open>(True, None)\<close>, any other dict returns
  \<open>(False, ctx)\<close>; a value that is not a dict returns nothing and the code goes on, and so
  does a \<open>JSONDecodeError\<close>, which is caught. Any other exception of \<open>json.loads\<close> is not
  caught.
\<close>

fun accept_ctx :: "py_error + json \<Rightarrow> py_error + (bool \<times> json) option" where
  "accept_ctx (Inr (JObj kvs)) =
     (if dict_get kvs ''status'' JNull = JStr ''all_passed'' then Inr (Some (True, JNull))
      else Inr (Some (False, JObj kvs)))"
| "accept_ctx (Inr v) = Inr None"
| "accept_ctx (Inl JSONDecodeError) = Inr None"
| "accept_ctx (Inl e) = Inl e"

text \<open>
  Lines 250 to 286, after the process has completed. \<open>loads\<close> is \<open>json.loads\<close>.
\<close>

definition parse_test_output ::
  "(string \<Rightarrow> py_error + json) \<Rightarrow> bool \<Rightarrow> int \<Rightarrow> string \<Rightarrow> py_error + bool \<times> json" where
  "parse_test_output loads fix_context rc out =
     (if fix_context then
        (let stdout = strip out in
         bind_err (accept_ctx (loads stdout)) (\<lambda>first.
         case first of
           Some r \<Rightarrow> Inr r
         | None \<Rightarrow>
             (case find_char (CHR ''{'') stdout of
                Some brace_idx \<Rightarrow>
                  bind_err (accept_ctx (loads (drop brace_idx stdout))) (\<lambda>second.
                  case second of
                    Some r \<Rightarrow> Inr r
                  | None \<Rightarrow> Inr (False, JNull))
              | None \<Rightarrow> Inr (False, JNull))))
      else Inr (rc = 0, JNull))"

text \<open>Lines 236 to 286: run the process under the timeout, then parse.\<close>

definition run_skill_test ::
  "(string \<Rightarrow> py_error + json) \<Rightarrow> bool \<Rightarrow> process \<Rightarrow> py_error + bool \<times> json" where
  "run_skill_test loads fix_context p =
     (case subprocess_run skill_test_timeout p of
        TimeoutExpired \<Rightarrow> Inr (False, JNull)
      | Raised e \<Rightarrow> Inr (False, JNull)
      | Completed rc out err \<Rightarrow> parse_test_output loads fix_context rc out)"

subsection \<open>Configuration\<close>

datatype platform = Confluence | Jira | Splunk

text \<open>The value of \<open>--platform\<close>: one platform, \<open>cross-platform\<close> or \<open>all\<close>.\<close>

datatype platform_mode = Single platform | Cross_platform | All_platforms

record platform_config =
  skills_path_env :: string
  default_subdir :: string
  plugin_name :: string
  lib_name :: string
  lib_package :: string
  env_vars :: "string list"
  mock_env_var :: string
  scenarios_path :: string

fun PLATFORM_CONFIG :: "platform \<Rightarrow> platform_config" where
  "PLATFORM_CONFIG Confluence = \<lparr>
     skills_path_env = ''CONFLUENCE_SKILLS_PATH'',
     default_subdir = ''Confluence-Assistant-Skills'',
     plugin_name = ''confluence-assistant-skills'',
     lib_name = ''confluence-as'',
     lib_package = ''confluence_as'',
     env_vars = [''CONFLUENCE_API_TOKEN'', ''CONFLUENCE_EMAIL'', ''CONFLUENCE_SITE_URL''],
     mock_env_var = ''CONFLUENCE_MOCK_MODE'',
     scenarios_path = ''confluence'' \<rparr>"
| "PLATFORM_CONFIG Jira = \<lparr>
     skills_path_env = ''JIRA_SKILLS_PATH'',
     default_subdir = ''Jira-Assistant-Skills'',
     plugin_name = ''jira-assistant-skills'',
     lib_name = ''jira-as'',
     lib_package = ''jira_as'',
     env_vars = [''JIRA_API_TOKEN'', ''JIRA_EMAIL'', ''JIRA_SITE_URL''],
     mock_env_var = ''JIRA_MOCK_MODE'',
     scenarios_path = ''jira'' \<rparr>"
| "PLATFORM_CONFIG Splunk = \<lparr>
     skills_path_env = ''SPLUNK_SKILLS_PATH'',
     default_subdir = ''Splunk-Assistant-Skills'',
     plugin_name = ''splunk-assistant-skills'',
     lib_name = ''splunk-as'',
     lib_package = ''splunk_as'',
     env_vars = [''SPLUNK_URL'', ''SPLUNK_USERNAME'', ''SPLUNK_PASSWORD'', ''SPLUNK_HEC_TOKEN''],
     mock_env_var = ''SPLUNK_MOCK_MODE'',
     scenarios_path = ''splunk'' \<rparr>"

definition CROSS_PLATFORM_REQUIRED :: "platform list" where
  "CROSS_PLATFORM_REQUIRED = [Confluence, Jira, Splunk]"

fun get_required_platforms :: "platform_mode \<Rightarrow> platform list" where
  "get_required_platforms Cross_platform = CROSS_PLATFORM_REQUIRED"
| "get_required_platforms All_platforms = CROSS_PLATFORM_REQUIRED"
| "get_required_platforms (Single p) = [p]"

text \<open>The key of a platform in \<open>PLATFORM_CONFIG\<close>.\<close>

fun platform_key :: "platform \<Rightarrow> string" where
  "platform_key Confluence = ''confluence''"
| "platform_key Jira = ''jira''"
| "platform_key Splunk = ''splunk''"

text \<open>\<open>p.title()\<close> of a platform name, and the name shown in the prompt header.\<close>

fun platform_title :: "platform \<Rightarrow> string" where
  "platform_title Confluence = ''Confluence''"
| "platform_title Jira = ''Jira''"
| "platform_title Splunk = ''Splunk''"

fun platform_name :: "platform_mode \<Rightarrow> string" where
  "platform_name Cross_platform = ''Cross-Platform''"
| "platform_name All_platforms = ''All''"
| "platform_name (Single p) = platform_title p"

subsection \<open>The world around the program\<close>

text \<open>
  Everything the program takes from outside. The library functions are parameters:
  \<open>loads\<close> is \<open>json.loads\<close> (\<open>Inl\<close> the exception it raises), \<open>fmt\<close> is the text an
  f-string puts for a value, \<open>dumps\<close> is \<open>json.dumps(x, indent=2)\<close>, and \<open>findall\<close> is
  \<open>list(set(re.findall(pattern, output)))\<close> for the file pattern of \<open>run_fix_agent\<close>.
  \<open>test_process a\<close> and \<open>fix_process a\<close> are the behaviour of the docker run and of the
  fix agent started in attempt \<open>a\<close>.
\<close>

record world =
  loads :: "string \<Rightarrow> py_error + json"
  fmt :: "json \<Rightarrow> string"
  dumps :: "json \<Rightarrow> string"
  findall :: "string \<Rightarrow> string list"
  environ :: "string \<Rightarrow> string option"
  path_exists :: "string \<Rightarrow> bool"
  demo_parent :: string
  test_process :: "nat \<Rightarrow> process"
  fix_process :: "nat \<Rightarrow> process"

text \<open>\<open>Path(a) / b\<close>, without the normalisation pathlib does.\<close>

definition joinpath :: "string \<Rightarrow> string \<Rightarrow> string" where
  "joinpath a b = a @ ''/'' @ b"

text \<open>\<open>SKILLS_BASE_PATH\<close>; \<open>demo_parent\<close> is \<open>AS_DEMO_PATH.parent\<close>.\<close>

definition SKILLS_BASE_PATH :: "world \<Rightarrow> string" where
  "SKILLS_BASE_PATH w =
     (case environ w ''SKILLS_BASE_PATH'' of Some p \<Rightarrow> p | None \<Rightarrow> demo_parent w)"

definition get_skills_path :: "world \<Rightarrow> platform \<Rightarrow> string" where
  "get_skills_path w p =
     (let config = PLATFORM_CONFIG p; env_var = skills_path_env config in
      case environ w env_var of
        Some v \<Rightarrow> v
      | None \<Rightarrow> joinpath (SKILLS_BASE_PATH w) (default_subdir config))"

subsection \<open>The fix agent: \<open>run_fix_agent\<close>\<close>

text \<open>One entry of \<open>attempt_history\<close>, and the dict \<open>run_fix_agent\<close> returns.\<close>

record attempt_record =
  attempt :: nat
  files :: "string list"
  result :: string
  error_summary :: json

record fix_result =
  success :: bool
  files_changed :: "string list"
  summary :: string
  session_id :: json

text \<open>The timeout of the fix agent, in seconds (\<open>timeout=300\<close>).\<close>

definition fix_agent_timeout :: nat where
  "fix_agent_timeout = 300"

text \<open>
  The f-string that opens the prompt (lines 343 to 369). Its fields are read with
  \<open>failure[...]\<close>, in this order, and a missing one raises \<open>KeyError\<close>.
\<close>

definition failure_details :: "world \<Rightarrow> platform_mode \<Rightarrow> json \<Rightarrow> py_error + string" where
  "failure_details w mode failure =
     bind_err (py_item failure ''prompt_text'') (\<lambda>prompt_text.
     bind_err (py_item failure ''tools_called'') (\<lambda>tools_called.
     bind_err (py_item failure ''tool_assertions'') (\<lambda>tool_assertions.
     bind_err (py_item failure ''text_assertions'') (\<lambda>text_assertions.
     bind_err (py_item failure ''quality'') (\<lambda>quality.
     bind_err (py_item failure ''tool_accuracy'') (\<lambda>tool_accuracy.
     bind_err (py_item failure ''reasoning'') (\<lambda>reasoning.
     bind_err (py_item failure ''refinement_suggestion'') (\<lambda>refinement_suggestion.
     Inr (''You are a skill refinement agent. A '' @ platform_name mode
          @ '' Assistant Skill test has failed and you need to fix it.'' @ nl @ nl
          @ ''## Failure Details'' @ nl @ nl
          @ ''**Prompt that failed:**'' @ nl @ fmt w prompt_text @ nl @ nl
          @ ''**Tools called:** '' @ fmt w tools_called @ nl @ nl
          @ ''**Tool Assertions:**'' @ nl @ dumps w tool_assertions @ nl @ nl
          @ ''**Text Assertions:**'' @ nl @ dumps w text_assertions @ nl @ nl
          @ ''**Quality Rating:** '' @ fmt w quality @ nl
          @ ''**Tool Accuracy:** '' @ fmt w tool_accuracy @ nl @ nl
          @ ''**Judge Reasoning:**'' @ nl @ fmt w reasoning @ nl @ nl
          @ ''**Refinement Suggestion:**'' @ nl @ fmt w refinement_suggestion @ nl @ nl
          @ ''## Relevant Files'' @ nl @ nl)))))))))"

text \<open>Lines 372 to 376: the two path lines of one platform.\<close>

definition platform_paths :: "world \<Rightarrow> platform \<Rightarrow> string" where
  "platform_paths w p =
     (let config = PLATFORM_CONFIG p; skills_path = get_skills_path w p in
      ''**'' @ platform_title p @ '' skill files:** '' @ skills_path @ ''/''
        @ plugin_name config @ ''/skills/'' @ nl
      @ ''**'' @ platform_title p @ '' library files:** '' @ skills_path @ ''/''
        @ lib_name config @ ''/src/'' @ lib_package config @ ''/'' @ nl)"

text \<open>Lines 380 and 381: one relevant file, its content cut to 3000 characters.\<close>

definition relevant_file :: "world \<Rightarrow> string \<times> json \<Rightarrow> py_error + string" where
  "relevant_file w pc =
     bind_err (py_slice (snd pc) 3000) (\<lambda>content.
     Inr (nl @ ''### '' @ fst pc @ nl @ ''```'' @ nl @ fmt w content @ nl @ ''```'' @ nl))"

text \<open>Lines 385 and 386: one commit of the git history.\<close>

definition git_commit :: "world \<Rightarrow> json \<Rightarrow> py_error + string" where
  "git_commit w commit =
     bind_err (py_item commit ''commit'') (\<lambda>c.
     bind_err (py_item commit ''message'') (\<lambda>m.
     Inr (''- '' @ fmt w c @ '': '' @ fmt w m @ nl)))"

definition git_history_section :: "world \<Rightarrow> json \<Rightarrow> py_error + string" where
  "git_history_section w fix_context =
     bind_err (py_get fix_context ''git_history'' JNull) (\<lambda>git_history.
     if truthy git_history then
       bind_err (py_iter git_history) (\<lambda>commits.
       bind_err (concat_err (git_commit w) commits) (\<lambda>t.
       Inr (nl @ ''## Recent Git History'' @ nl @ t)))
     else Inr [])"

text \<open>Lines 391 to 397: one entry of the attempt history.\<close>

definition history_line :: "world \<Rightarrow> attempt_record \<Rightarrow> string" where
  "history_line w h =
     ''- Attempt '' @ fmt w (JInt (int (attempt h))) @ '': ''
     @ (if files h \<noteq> [] then ''Changed '' @ fmt w (JArr (map JStr (files h))) @ '', '' else [])
     @ ''Result: '' @ result h @ nl
     @ (if truthy (error_summary h) then ''  Error: '' @ fmt w (error_summary h) @ nl else [])"

text \<open>Lines 388 to 397.\<close>

definition history_section :: "world \<Rightarrow> attempt_record list \<Rightarrow> string" where
  "history_section w hist =
     (if hist \<noteq> [] then
        nl @ ''## Previous Fix Attempts (this session)'' @ nl @ concat (map (history_line w) hist)
      else [])"

text \<open>Lines 399 to 412.\<close>

definition task_section :: string where
  "task_section =
     nl @ nl @ ''## Your Task'' @ nl @ nl
     @ ''Analyze the failure and make targeted changes to fix it. Focus on:'' @ nl @ nl
     @ ''1. **If tool selection is wrong**: Update the skill description to better trigger on this type of query'' @ nl
     @ ''2. **If tool worked but output is wrong**: Check if the skill examples or instructions need improvement'' @ nl
     @ ''3. **If there'' @ [CHR 0x27] @ ''s an API error**: Check the library code for bugs'' @ nl @ nl
     @ ''Make minimal, focused changes. Edit the actual files - do not just describe what to change.'' @ nl @ nl
     @ ''After making changes, provide a brief summary of what you changed and why.'' @ nl"

text \<open>Lines 338 to 412: the whole prompt.\<close>

definition build_prompt ::
  "world \<Rightarrow> platform_mode \<Rightarrow> json \<Rightarrow> attempt_record list \<Rightarrow> py_error + string" where
  "build_prompt w mode fix_context hist =
     (let required_platforms = get_required_platforms mode in
      bind_err (py_item fix_context ''failure'') (\<lambda>failure.
      bind_err (failure_details w mode failure) (\<lambda>header.
      bind_err (py_get fix_context ''relevant_files'' (JObj [])) (\<lambda>relevant_files.
      bind_err (py_items relevant_files) (\<lambda>items.
      bind_err (concat_err (relevant_file w) items) (\<lambda>files_text.
      bind_err (git_history_section w fix_context) (\<lambda>git_text.
      Inr (header
           @ concat (map (platform_paths w) required_platforms)
           @ nl @ ''Current relevant file contents:'' @ nl
           @ files_text
           @ git_text
           @ history_section w hist
           @ task_section))))))))"

text \<open>Lines 423 to 432: the command; \<open>--resume\<close> is added when there is a session id.\<close>

definition fix_agent_cmd :: "string \<Rightarrow> json \<Rightarrow> json list" where
  "fix_agent_cmd prompt sid =
     [JStr ''claude'', JStr ''-p'', JStr prompt, JStr ''--model'', JStr ''sonnet'',
      JStr ''--dangerously-skip-permissions'', JStr ''--output-format'', JStr ''json'']
     @ (if truthy sid then [JStr ''--resume'', sid] else [])"

fun is_str :: "json \<Rightarrow> bool" where
  "is_str (JStr s) = True"
| "is_str _ = False"

text \<open>The name of the type of a Python value.\<close>

fun py_type_name :: "json \<Rightarrow> string" where
  "py_type_name JNull = ''NoneType''"
| "py_type_name (JBool b) = ''bool''"
| "py_type_name (JInt i) = ''int''"
| "py_type_name (JStr s) = ''str''"
| "py_type_name (JArr xs) = ''list''"
| "py_type_name (JObj kvs) = ''dict''"

text \<open>
  \<open>subprocess.run\<close> on an argument list: an argument that is not a string makes the
  call itself raise \<open>TypeError\<close>, with the type of the first such argument in the
  message.
\<close>

definition subprocess_run_args :: "nat \<Rightarrow> json list \<Rightarrow> process \<Rightarrow> run_outcome" where
  "subprocess_run_args t cmd p =
     (case filter (\<lambda>x. \<not> is_str x) cmd of
        [] \<Rightarrow> subprocess_run t p
      | x # xs \<Rightarrow>
          Raised (''expected str, bytes or os.PathLike object, not '' @ py_type_name x))"

text \<open>\<open>_parse_fix_agent_output\<close>: only \<open>JSONDecodeError\<close> is caught.\<close>

definition parse_fix_agent_output :: "world \<Rightarrow> string \<Rightarrow> json \<Rightarrow> py_error + json" where
  "parse_fix_agent_output w output default_session_id =
     (case loads w output of
        Inl e \<Rightarrow> if e = JSONDecodeError then Inr default_session_id else Inl e
      | Inr output_data \<Rightarrow> py_get output_data ''session_id'' default_session_id)"

text \<open>
  The generator of \<open>_extract_text_from_output\<close>: the \<open>text\<close> of every block whose
  \<open>type\<close> is \<open>"text"\<close>.
\<close>

fun text_blocks :: "json list \<Rightarrow> py_error + json list" where
  "text_blocks [] = Inr []"
| "text_blocks (block # blocks) =
     bind_err (py_get block ''type'' JNull) (\<lambda>ty.
     if ty = JStr ''text'' then
       bind_err (py_get block ''text'' (JStr [])) (\<lambda>t.
       bind_err (text_blocks blocks) (\<lambda>ts. Inr (t # ts)))
     else text_blocks blocks)"

text \<open>\<open>"\n".join(items)\<close>: every item must be a string.\<close>

fun py_join :: "json list \<Rightarrow> py_error + string" where
  "py_join [] = Inr []"
| "py_join [JStr s] = Inr s"
| "py_join (JStr s # x # xs) = bind_err (py_join (x # xs)) (\<lambda>r. Inr (s @ nl @ r))"
| "py_join _ = Inl TypeError"

definition extract_text_from_output :: "world \<Rightarrow> string \<Rightarrow> py_error + string" where
  "extract_text_from_output w output =
     (case loads w output of
        Inl e \<Rightarrow> if e = JSONDecodeError then Inr output else Inl e
      | Inr output_data \<Rightarrow>
          bind_err (py_get output_data ''result'' JNull) (\<lambda>r.
          case r of
            JStr s \<Rightarrow> Inr s
          | _ \<Rightarrow>
              bind_err (py_get output_data ''content'' JNull) (\<lambda>c.
              case c of
                JArr blocks \<Rightarrow> bind_err (text_blocks blocks) py_join
              | _ \<Rightarrow> Inr output)))"

text \<open>Lines 452 to 456: the file edit indicators.\<close>

definition detect_files :: "world \<Rightarrow> string \<Rightarrow> string list" where
  "detect_files w output =
     (if py_in ''Edit'' output \<or> py_in ''edited'' (py_lower output)
         \<or> py_in ''updated'' (py_lower output)
      then findall w output else [])"

text \<open>
  Lines 338 to 432 of \<open>run_fix_agent\<close>: the command that is handed to
  \<open>subprocess.run\<close>, with the prompt after \<open>-p\<close>.
\<close>

definition fix_agent_command ::
  "world \<Rightarrow> platform_mode \<Rightarrow> bool \<Rightarrow> json \<Rightarrow> json \<Rightarrow> attempt_record list
     \<Rightarrow> py_error + json list" where
  "fix_agent_command w mode verbose fix_context sid hist =
     bind_err (build_prompt w mode fix_context hist) (\<lambda>prompt.
     bind_err (if verbose then
                 bind_err (py_item fix_context ''failure'') (\<lambda>failure.
                 bind_err (py_item failure ''prompt_text'') (\<lambda>t. py_slice t 50))
               else Inr JNull) (\<lambda>_.
     Inr (fix_agent_cmd prompt sid)))"

text \<open>
  \<open>run_fix_agent\<close>, called in attempt \<open>a\<close> with the session id \<open>sid\<close> and the attempt
  history \<open>hist\<close>.
\<close>

definition run_fix_agent ::
  "world \<Rightarrow> nat \<Rightarrow> json \<Rightarrow> platform_mode \<Rightarrow> bool \<Rightarrow> json \<Rightarrow> attempt_record list
     \<Rightarrow> py_error + fix_result" where
  "run_fix_agent w a fix_context mode verbose sid hist =
     bind_err (fix_agent_command w mode verbose fix_context sid hist) (\<lambda>cmd.
     case subprocess_run_args fix_agent_timeout cmd (fix_process w a) of
       TimeoutExpired \<Rightarrow>
         Inr \<lparr>success = False, files_changed = [], summary = ''Fix agent timed out'',
              session_id = sid\<rparr>
     | Raised e \<Rightarrow>
         Inr \<lparr>success = False, files_changed = [], summary = ''Fix agent error: '' @ e,
              session_id = sid\<rparr>
     | Completed rc out err \<Rightarrow>
         bind_err (parse_fix_agent_output w out sid) (\<lambda>new_session_id.
         bind_err (extract_text_from_output w out) (\<lambda>output.
         Inr \<lparr>success = (rc = 0),
              files_changed = detect_files w output,
              summary = (if 500 < length output then drop (length output - 500) output
                         else output),
              session_id = new_session_id\<rparr>)))"

subsection \<open>The main loop: \<open>run_refinement_loop\<close>\<close>

text \<open>The three variables the loop keeps between attempts (lines 508 to 510).\<close>

record loop_state =
  fix_session_id :: json
  attempt_history :: "attempt_record list"
  last_failing_prompt_index :: json

text \<open>
  What a run does, in order: an iteration of the \<open>for\<close> loop begins; \<open>run_skill_test\<close>
  is called with \<open>fork_from\<close> and \<open>prompt_index\<close>; \<open>run_fix_agent\<close> is called with the
  failure context, the session id and the attempt history.
\<close>

datatype event =
    Iteration nat
  | Test_call nat json json
  | Fix_call nat json json "attempt_record list"

text \<open>How one iteration ends: \<open>return\<close>, an exception, or the next iteration.\<close>

datatype step =
    Return bool
  | Raise py_error
  | Continue loop_state

text \<open>Lines 516 to 527: \<open>(fork_from, prompt_index)\<close> of attempt \<open>a\<close>.\<close>

definition fork_args :: "nat \<Rightarrow> json \<Rightarrow> py_error + json \<times> json" where
  "fork_args a idx =
     (if 1 < a \<and> idx \<noteq> JNull then
        bind_err (py_gt0 idx) (\<lambda>positive.
        if positive then bind_err (py_sub1 idx) (\<lambda>fork_from. Inr (fork_from, idx))
        else Inr (JNull, JInt 0))
      else Inr (JNull, JNull))"

text \<open>Lines 219 to 222: what the two values add to the command of the docker run.\<close>

definition resume_flags :: "world \<Rightarrow> json \<Rightarrow> json \<Rightarrow> string" where
  "resume_flags w fork_from prompt_index =
     (if fork_from \<noteq> JNull then '' --fork-from '' @ fmt w fork_from else [])
     @ (if prompt_index \<noteq> JNull then '' --prompt-index '' @ fmt w prompt_index else [])"

text \<open>
  Lines 556 to 590: the rest of an iteration whose test failed with a fix context.
  The slices of the progress messages are computed although the text is only printed,
  since a value that cannot be sliced raises there.
\<close>

definition after_failure ::
  "world \<Rightarrow> platform_mode \<Rightarrow> bool \<Rightarrow> nat \<Rightarrow> loop_state \<Rightarrow> json \<Rightarrow> event list \<times> step" where
  "after_failure w mode verbose a s fix_ctx =
     (case
        bind_err (py_get fix_ctx ''failure'' (JObj [])) (\<lambda>failure.
        bind_err (py_get failure ''prompt_index'' JNull) (\<lambda>index.
        bind_err (py_get failure ''prompt_text'' (JStr ''unknown'')) (\<lambda>prompt_text.
        bind_err (py_slice prompt_text 60) (\<lambda>_.
        bind_err (py_get failure ''refinement_suggestion'' (JStr ''none'')) (\<lambda>suggestion.
        bind_err (py_slice suggestion 100) (\<lambda>_.
        bind_err (if truthy (fix_session_id s) then py_slice (fix_session_id s) 20
                  else Inr JNull) (\<lambda>_.
        Inr (failure, index))))))))
      of
        Inl e \<Rightarrow> ([], Raise e)
      | Inr (failure, index) \<Rightarrow>
          (case
             bind_err (run_fix_agent w a fix_ctx mode verbose (fix_session_id s)
                         (attempt_history s)) (\<lambda>fix_result.
             bind_err (py_get failure ''refinement_suggestion'' (JStr [])) (\<lambda>suggestion.
             bind_err (py_slice suggestion 100) (\<lambda>error_text.
             Inr \<lparr>fix_session_id = session_id fix_result,
                  attempt_history = attempt_history s @
                    [\<lparr>attempt = a, files = files_changed fix_result,
                      result = ''still failing'', error_summary = error_text\<rparr>],
                  last_failing_prompt_index = index\<rparr>)))
           of
             Inl e \<Rightarrow> ([Fix_call a fix_ctx (fix_session_id s) (attempt_history s)], Raise e)
           | Inr s' \<Rightarrow>
               ([Fix_call a fix_ctx (fix_session_id s) (attempt_history s)], Continue s')))"

text \<open>Lines 513 to 590: one iteration of the loop, attempt \<open>a\<close> in state \<open>s\<close>.\<close>

definition attempt_body ::
  "world \<Rightarrow> platform_mode \<Rightarrow> bool \<Rightarrow> nat \<Rightarrow> loop_state \<Rightarrow> event list \<times> step" where
  "attempt_body w mode verbose a s =
     (case fork_args a (last_failing_prompt_index s) of
        Inl e \<Rightarrow> ([Iteration a], Raise e)
      | Inr (fork_from, prompt_index) \<Rightarrow>
          (case run_skill_test (loads w) True (test_process w a) of
             Inl e \<Rightarrow> ([Iteration a, Test_call a fork_from prompt_index], Raise e)
           | Inr (all_passed, fix_ctx) \<Rightarrow>
               if all_passed then
                 ([Iteration a, Test_call a fork_from prompt_index], Return True)
               else if \<not> truthy fix_ctx then
                 ([Iteration a, Test_call a fork_from prompt_index], Continue s)
               else
                 (case after_failure w mode verbose a s fix_ctx of
                    (evs, st) \<Rightarrow> ([Iteration a, Test_call a fork_from prompt_index] @ evs, st))))"

text \<open>
  The \<open>for\<close> loop from attempt \<open>a\<close> on, with \<open>n\<close> iterations left; falling out of the loop
  returns \<open>False\<close> (line 595).
\<close>

fun attempts ::
  "world \<Rightarrow> platform_mode \<Rightarrow> bool \<Rightarrow> nat \<Rightarrow> nat \<Rightarrow> loop_state
     \<Rightarrow> event list \<times> (py_error + bool)" where
  "attempts w mode verbose a 0 s = ([], Inr False)"
| "attempts w mode verbose a (Suc n) s =
     (case attempt_body w mode verbose a s of
        (evs, Return b) \<Rightarrow> (evs, Inr b)
      | (evs, Raise e) \<Rightarrow> (evs, Inl e)
      | (evs, Continue s') \<Rightarrow>
          (case attempts w mode verbose (Suc a) n s' of (evs', r) \<Rightarrow> (evs @ evs', r)))"

definition initial_state :: loop_state where
  "initial_state =
     \<lparr>fix_session_id = JNull, attempt_history = [], last_failing_prompt_index = JNull\<rparr>"

text \<open>
  \<open>run_refinement_loop\<close>: \<open>range(1, max_attempts + 1)\<close> has \<open>nat max_attempts\<close> elements.
  The scenario, the models and the mock flag only go into the command of the docker run.
\<close>

definition run_refinement_loop ::
  "world \<Rightarrow> platform_mode \<Rightarrow> int \<Rightarrow> bool \<Rightarrow> event list \<times> (py_error + bool)" where
  "run_refinement_loop w mode max_attempts verbose =
     attempts w mode verbose 1 (nat max_attempts) initial_state"

subsection \<open>The command line: \<open>main\<close>\<close>

text \<open>Lines 634 to 641: neither of the two places holds the plugin.\<close>

definition plugin_missing :: "world \<Rightarrow> platform \<Rightarrow> bool" where
  "plugin_missing w p =
     (let skills_path = get_skills_path w p;
          config = PLATFORM_CONFIG p;
          plugin_path = joinpath (joinpath skills_path ''plugins'') (plugin_name config);
          plugin_path = (if \<not> path_exists w plugin_path
                         then joinpath skills_path (plugin_name config) else plugin_path)
      in \<not> path_exists w plugin_path)"

text \<open>
  Lines 646 to 651: the first variable of \<open>env_vars\<close> is looked up for every required
  platform, and one that is unset or empty is only reported.
\<close>

definition credential_warnings :: "world \<Rightarrow> platform_mode \<Rightarrow> string list" where
  "credential_warnings w mode =
     concat (map (\<lambda>p.
       (let primary_env = hd (env_vars (PLATFORM_CONFIG p)) in
        case environ w primary_env of
          None \<Rightarrow> [''Warning: '' @ primary_env @ '' not set for '' @ platform_key p]
        | Some v \<Rightarrow>
            if v = [] then [''Warning: '' @ primary_env @ '' not set for '' @ platform_key p]
            else []))
       (get_required_platforms mode))"

text \<open>
  \<open>main\<close> after the arguments are parsed: the credential warnings it prints (its other
  output, the two \<open>Error:\<close> lines before \<open>sys.exit(1)\<close> among it, is not modelled), the
  events of the run and the exit status of the process (\<open>sys.exit\<close>), or the exception
  that ends it.
\<close>

definition main ::
  "world \<Rightarrow> platform_mode \<Rightarrow> int \<Rightarrow> bool \<Rightarrow> string list \<times> event list \<times> (py_error + int)" where
  "main w mode max_attempts verbose =
     (if list_ex (plugin_missing w) (get_required_platforms mode) then ([], [], Inr 1)
      else
        (case run_refinement_loop w mode max_attempts verbose of
           (evs, Inl e) \<Rightarrow> (credential_warnings w mode, evs, Inl e)
         | (evs, Inr ok) \<Rightarrow> (credential_warnings w mode, evs, Inr (if ok then 0 else 1))))"

subsection \<open>A reader for JSON text\<close>

text \<open>
  A recursive-descent reader for the JSON grammar, used where a concrete \<open>json.loads\<close> is
  needed: it reads objects, arrays, strings with their escapes, integers and the three
  literals, and answers \<open>JSONDecodeError\<close> where \<open>json.loads\<close> raises it. A
  repeated key keeps its first place and its last value, as in a Python dict. Numbers
  with a fraction or an exponent, \<open>NaN\<close> and \<open>Infinity\<close>, and \<open>\u\<close> escapes above 255
  are outside the model and are answered with \<open>JSONDecodeError\<close> too; the reader is
  only applied to texts without them, and to texts that are short and flat, on which
  \<open>json.loads\<close> raises neither \<open>RecursionError\<close> nor \<open>ValueError\<close>. The first argument of
  \<open>parse_value\<close> bounds the depth of the recursion; \<open>json_loads\<close> starts with more than
  the length of the text.
\<close>

definition json_ws :: "char \<Rightarrow> bool" where
  "json_ws c = (c = CHR '' '' \<or> c = CHR 0x09 \<or> c = CHR 0x0A \<or> c = CHR 0x0D)"

definition skip_ws :: "string \<Rightarrow> string" where
  "skip_ws s = dropWhile json_ws s"

definition is_digit :: "char \<Rightarrow> bool" where
  "is_digit c = (let n = of_char c :: nat in 48 \<le> n \<and> n \<le> 57)"

definition digit_val :: "char \<Rightarrow> int" where
  "digit_val c = int (of_char c) - 48"

definition hex_val :: "char \<Rightarrow> nat option" where
  "hex_val c = (let n = of_char c :: nat in
     if 48 \<le> n \<and> n \<le> 57 then Some (n - 48)
     else if 65 \<le> n \<and> n \<le> 70 then Some (n - 55)
     else if 97 \<le> n \<and> n \<le> 102 then Some (n - 87)
     else None)"

definition simple_escape :: "char \<Rightarrow> char option" where
  "simple_escape e =
     (if e = CHR 0x22 then Some (CHR 0x22)
      else if e = CHR 0x5C then Some (CHR 0x5C)
      else if e = CHR ''/'' then Some (CHR ''/'')
      else if e = CHR ''b'' then Some (CHR 0x08)
      else if e = CHR ''f'' then Some (CHR 0x0C)
      else if e = CHR ''n'' then Some (CHR 0x0A)
      else if e = CHR ''r'' then Some (CHR 0x0D)
      else if e = CHR ''t'' then Some (CHR 0x09)
      else None)"

definition hex4 :: "char \<Rightarrow> char \<Rightarrow> char \<Rightarrow> char \<Rightarrow> char option" where
  "hex4 a b c d =
     (case (hex_val a, hex_val b, hex_val c, hex_val d) of
        (Some x, Some y, Some z, Some w) \<Rightarrow>
          (let n = ((x * 16 + y) * 16 + z) * 16 + w in if n < 256 then Some (char_of n) else None)
      | _ \<Rightarrow> None)"

definition cons_fst :: "'a \<Rightarrow> ('a list \<times> 'b) option \<Rightarrow> ('a list \<times> 'b) option" where
  "cons_fst x r = map_option (\<lambda>(xs, rest). (x # xs, rest)) r"

fun parse_string :: "string \<Rightarrow> (string \<times> string) option" where
  "parse_string [] = None"
| "parse_string (c # cs) =
     (if c = CHR 0x22 then Some ([], cs)
      else if c = CHR 0x5C then
        (case cs of
           [] \<Rightarrow> None
         | e # r \<Rightarrow>
             (if e = CHR ''u'' then
                (case r of
                   a # b # x # y # r' \<Rightarrow>
                     (case hex4 a b x y of
                        None \<Rightarrow> None
                      | Some ch \<Rightarrow> cons_fst ch (parse_string r'))
                 | _ \<Rightarrow> None)
              else
                (case simple_escape e of
                   None \<Rightarrow> None
                 | Some ch \<Rightarrow> cons_fst ch (parse_string r))))
      else if (of_char c :: nat) < 32 then None
      else cons_fst c (parse_string cs))"

fun parse_digits :: "int \<Rightarrow> string \<Rightarrow> int \<times> string" where
  "parse_digits acc [] = (acc, [])"
| "parse_digits acc (c # cs) =
     (if is_digit c then parse_digits (acc * 10 + digit_val c) cs else (acc, c # cs))"

definition float_tail :: "string \<Rightarrow> bool" where
  "float_tail r = (case r of [] \<Rightarrow> False | c # _ \<Rightarrow> c = CHR ''.'' \<or> c = CHR ''e'' \<or> c = CHR ''E'')"

definition parse_nat_part :: "string \<Rightarrow> (int \<times> string) option" where
  "parse_nat_part s =
     (case s of
        [] \<Rightarrow> None
      | c # cs \<Rightarrow>
          if c = CHR ''0'' then (if float_tail cs then None else Some (0, cs))
          else if is_digit c then
            (let (n, r) = parse_digits (digit_val c) cs in if float_tail r then None else Some (n, r))
          else None)"

definition parse_number :: "string \<Rightarrow> (json \<times> string) option" where
  "parse_number s =
     (case s of
        [] \<Rightarrow> None
      | c # cs \<Rightarrow>
          if c = CHR ''-'' then map_option (\<lambda>(n, r). (JInt (- n), r)) (parse_nat_part cs)
          else map_option (\<lambda>(n, r). (JInt n, r)) (parse_nat_part s))"

fun dict_set :: "(string \<times> json) list \<Rightarrow> string \<Rightarrow> json \<Rightarrow> (string \<times> json) list" where
  "dict_set [] k v = [(k, v)]"
| "dict_set ((k', v') # kvs) k v = (if k' = k then (k, v) # kvs else (k', v') # dict_set kvs k v)"

definition strip_prefix :: "string \<Rightarrow> string \<Rightarrow> string option" where
  "strip_prefix p s = (if take (length p) s = p then Some (drop (length p) s) else None)"

fun parse_value :: "nat \<Rightarrow> string \<Rightarrow> (json \<times> string) option"
  and parse_elems :: "nat \<Rightarrow> json list \<Rightarrow> string \<Rightarrow> (json \<times> string) option"
  and parse_members :: "nat \<Rightarrow> (string \<times> json) list \<Rightarrow> string \<Rightarrow> (json \<times> string) option" where
  "parse_value 0 s = None"
| "parse_value (Suc n) s =
     (case s of
        [] \<Rightarrow> None
      | c # cs \<Rightarrow>
          if c = CHR ''{'' then
            (case skip_ws cs of
               [] \<Rightarrow> None
             | d # r \<Rightarrow> if d = CHR ''}'' then Some (JObj [], r) else parse_members n [] (d # r))
          else if c = CHR ''['' then
            (case skip_ws cs of
               [] \<Rightarrow> None
             | d # r \<Rightarrow> if d = CHR '']'' then Some (JArr [], r) else parse_elems n [] (d # r))
          else if c = CHR 0x22 then map_option (\<lambda>(str, r). (JStr str, r)) (parse_string cs)
          else if c = CHR ''t'' then map_option (Pair (JBool True)) (strip_prefix ''true'' s)
          else if c = CHR ''f'' then map_option (Pair (JBool False)) (strip_prefix ''false'' s)
          else if c = CHR ''n'' then map_option (Pair JNull) (strip_prefix ''null'' s)
          else parse_number s)"
| "parse_elems 0 acc s = None"
| "parse_elems (Suc n) acc s =
     (case parse_value n s of
        None \<Rightarrow> None
      | Some (v, r) \<Rightarrow>
          (case skip_ws r of
             [] \<Rightarrow> None
           | d # r' \<Rightarrow>
               if d = CHR '','' then parse_elems n (acc @ [v]) (skip_ws r')
               else if d = CHR '']'' then Some (JArr (acc @ [v]), r')
               else None))"
| "parse_members 0 acc s = None"
| "parse_members (Suc n) acc s =
     (case s of
        [] \<Rightarrow> None
      | q # cs \<Rightarrow>
          if q \<noteq> CHR 0x22 then None
          else
            (case parse_string cs of
               None \<Rightarrow> None
             | Some (k, r) \<Rightarrow>
                 (case skip_ws r of
                    [] \<Rightarrow> None
                  | col # r1 \<Rightarrow>
                      if col \<noteq> CHR '':'' then None
                      else
                        (case parse_value n (skip_ws r1) of
                           None \<Rightarrow> None
                         | Some (v, r2) \<Rightarrow>
                             (case skip_ws r2 of
                                [] \<Rightarrow> None
                              | d # r3 \<Rightarrow>
                                  if d = CHR '','' then parse_members n (dict_set acc k v) (skip_ws r3)
                                  else if d = CHR ''}'' then Some (JObj (dict_set acc k v), r3)
                                  else None)))))"

definition json_loads :: "string \<Rightarrow> py_error + json" where
  "json_loads s =
     (case parse_value (2 * length s + 2) (skip_ws s) of
        None \<Rightarrow> Inl JSONDecodeError
      | Some (v, r) \<Rightarrow> if skip_ws r = [] then Inr v else Inl JSONDecodeError)"

text \<open>A text between double quotes.\<close>

definition dq :: "string \<Rightarrow> string" where
  "dq s = CHR 0x22 # s @ [CHR 0x22]"


text \<open>A formatting function for examples: \<open>str\<close> of integers, plain strings and lists.\<close>

fun show_nat :: "nat \<Rightarrow> string" where
  "show_nat n =
     (if n < 10 then [char_of (48 + n)] else show_nat (n div 10) @ [char_of (48 + n mod 10)])"

definition show_int :: "int \<Rightarrow> string" where
  "show_int i = (if i < 0 then ''-'' @ show_nat (nat (- i)) else show_nat (nat i))"

fun show_items :: "string list \<Rightarrow> string" where
  "show_items [] = []"
| "show_items [x] = x"
| "show_items (x # y # ys) = x @ '', '' @ show_items (y # ys)"

fun show_repr :: "json \<Rightarrow> string" where
  "show_repr JNull = ''None''"
| "show_repr (JBool b) = (if b then ''True'' else ''False'')"
| "show_repr (JInt i) = show_int i"
| "show_repr (JStr s) = [CHR 0x27] @ s @ [CHR 0x27]"
| "show_repr (JArr xs) = ''['' @ show_items (map show_repr xs) @ '']''"
| "show_repr (JObj kvs) =
     ''{'' @ show_items (map (\<lambda>kv. [CHR 0x27] @ fst kv @ [CHR 0x27] @ '': '' @ show_repr (snd kv)) kvs)
     @ ''}''"

fun show_json :: "json \<Rightarrow> string" where
  "show_json (JStr s) = s"
| "show_json v = show_repr v"

subsection \<open>The output parser as a strategy\<close>

text \<open>
  The strategy of the output parser, written out on its own: (a) the whole trimmed text,
  (b) the text from the first brace on, (c) nothing. A parse gives a result when it
  yields an object.
\<close>

fun as_object :: "py_error + json \<Rightarrow> (string \<times> json) list option" where
  "as_object (Inr (JObj kvs)) = Some kvs"
| "as_object _ = None"

definition extractJson ::
  "(string \<Rightarrow> py_error + json) \<Rightarrow> string \<Rightarrow> (string \<times> json) list option" where
  "extractJson lds raw =
     (let t = strip raw in
      case as_object (lds t) of
        Some obj \<Rightarrow> Some obj
      | None \<Rightarrow>
          (case find_char (CHR ''{'') t of
             None \<Rightarrow> None
           | Some i \<Rightarrow> as_object (lds (drop i t))))"

text \<open>
  \<open>json.loads\<close> raises nothing but \<open>JSONDecodeError\<close> on the texts the extraction hands
  to it: the whole trimmed text and, when that gives no object, the text from the first
  brace on.
\<close>

fun decodes :: "py_error + json \<Rightarrow> bool" where
  "decodes (Inl e) = (e = JSONDecodeError)"
| "decodes (Inr v) = True"

definition decodes_all :: "(string \<Rightarrow> py_error + json) \<Rightarrow> string \<Rightarrow> bool" where
  "decodes_all lds raw =
     (let t = strip raw in
      decodes (lds t)
      \<and> (case as_object (lds t) of
            Some obj \<Rightarrow> True
          | None \<Rightarrow>
              (case find_char (CHR ''{'') t of
                 None \<Rightarrow> True
               | Some i \<Rightarrow> decodes (lds (drop i t)))))"

text \<open>The three texts of the specification's examples.\<close>

definition example_pass :: string where
  "example_pass = ''{'' @ dq ''status'' @ '': '' @ dq ''all_passed'' @ ''}''"

definition example_failure :: string where
  "example_failure =
     ''some log line'' @ nl @ ''{'' @ dq ''failure'' @ '': {'' @ dq ''prompt_index'' @ '': 2}}''"

definition example_garbage :: string where
  "example_garbage = ''not json at all''"

subsection \<open>Observing a run\<close>

text \<open>
  What the loop reads from a failure context: the prompt index it records
  (\<open>failure.get("prompt_index")\<close>) and the error summary of the attempt record (the
  first 100 characters of the refinement suggestion).
\<close>

definition ctx_index :: "json \<Rightarrow> json" where
  "ctx_index fix_ctx =
     (case py_get fix_ctx ''failure'' (JObj []) of
        Inl e \<Rightarrow> JNull
      | Inr failure \<Rightarrow>
          (case py_get failure ''prompt_index'' JNull of Inl e \<Rightarrow> JNull | Inr i \<Rightarrow> i))"

definition ctx_summary :: "json \<Rightarrow> json" where
  "ctx_summary fix_ctx =
     (case bind_err (py_get fix_ctx ''failure'' (JObj [])) (\<lambda>failure.
           bind_err (py_get failure ''refinement_suggestion'' (JStr [])) (\<lambda>s.
           py_slice s 100)) of
        Inl e \<Rightarrow> JNull
      | Inr t \<Rightarrow> t)"

fun is_fix_call :: "event \<Rightarrow> bool" where
  "is_fix_call (Fix_call a c t h) = True"
| "is_fix_call _ = False"

fun is_iteration :: "event \<Rightarrow> bool" where
  "is_iteration (Iteration a) = True"
| "is_iteration _ = False"

text \<open>The attempt an event belongs to.\<close>

fun attempt_of :: "event \<Rightarrow> nat" where
  "attempt_of (Iteration a) = a"
| "attempt_of (Test_call a f p) = a"
| "attempt_of (Fix_call a c t h) = a"

text \<open>
  The last failing prompt index on record after a sequence of events: the index of the
  context of the latest call of the fix agent, \<open>idx\<close> if there was none.
\<close>

fun last_recorded :: "json \<Rightarrow> event list \<Rightarrow> json" where
  "last_recorded idx [] = idx"
| "last_recorded idx (Fix_call a c t h # evs) = last_recorded (ctx_index c) evs"
| "last_recorded idx (e # evs) = last_recorded idx evs"

text \<open>The latest call of the fix agent in a sequence of events.\<close>

fun last_fix :: "event list \<Rightarrow> event option" where
  "last_fix [] = None"
| "last_fix (e # evs) =
     (case last_fix evs of Some x \<Rightarrow> Some x | None \<Rightarrow> if is_fix_call e then Some e else None)"

text \<open>
  The state in which the loop goes on after a call of the fix agent that returned:
  lines 575 to 582 and 557.
\<close>

fun state_after_fix :: "world \<Rightarrow> platform_mode \<Rightarrow> bool \<Rightarrow> event \<Rightarrow> loop_state option" where
  "state_after_fix w mode verbose (Fix_call b c t h) =
     (case run_fix_agent w b c mode verbose t h of
        Inl e \<Rightarrow> None
      | Inr fr \<Rightarrow>
          Some \<lparr>fix_session_id = session_id fr,
                attempt_history = h @
                  [\<lparr>attempt = b, files = files_changed fr, result = ''still failing'',
                    error_summary = ctx_summary c\<rparr>],
                last_failing_prompt_index = ctx_index c\<rparr>)"
| "state_after_fix w mode verbose _ = None"

text \<open>
  An entry of the attempt history records a call of the fix agent: it carries the number
  of that attempt, the label \<open>still failing\<close> and the files the call reported as changed.
\<close>

fun entry_matches :: "world \<Rightarrow> platform_mode \<Rightarrow> bool \<Rightarrow> attempt_record \<Rightarrow> event \<Rightarrow> bool" where
  "entry_matches w mode verbose e (Fix_call b c t h) =
     (attempt e = b \<and> result e = ''still failing''
      \<and> (case run_fix_agent w b c mode verbose t h of
            Inl err \<Rightarrow> False
          | Inr fr \<Rightarrow> files e = files_changed fr))"
| "entry_matches w mode verbose e _ = False"

text \<open>The attempt and the session id of every call of the fix agent, in order.\<close>

fun fix_tokens :: "event list \<Rightarrow> (nat \<times> json) list" where
  "fix_tokens [] = []"
| "fix_tokens (Fix_call a c t h # evs) = (a, t) # fix_tokens evs"
| "fix_tokens (e # evs) = fix_tokens evs"

text \<open>The prompt in a command of the fix agent: the argument after \<open>-p\<close>.\<close>

fun command_prompt :: "py_error + json list \<Rightarrow> string option" where
  "command_prompt (Inr (c # p # JStr prompt # rest)) =
     (if p = JStr ''-p'' then Some prompt else None)"
| "command_prompt _ = None"

text \<open>
  \<open>reaches w mode verbose a s tr a' s'\<close>: the loop, started with attempt \<open>a\<close> in state
  \<open>s\<close>, gets to the beginning of attempt \<open>a'\<close> in state \<open>s'\<close>, with the events \<open>tr\<close>
  behind it.
\<close>

inductive reaches ::
  "world \<Rightarrow> platform_mode \<Rightarrow> bool \<Rightarrow> nat \<Rightarrow> loop_state \<Rightarrow> event list \<Rightarrow> nat
     \<Rightarrow> loop_state \<Rightarrow> bool"
  for w mode verbose a s where
    start: "reaches w mode verbose a s [] a s"
  | later: "reaches w mode verbose a s tr a' s' \<Longrightarrow>
           attempt_body w mode verbose a' s' = (evs, Continue s'') \<Longrightarrow>
           reaches w mode verbose a s (tr @ evs) (Suc a') s''"

subsection \<open>Example worlds\<close>

text \<open>The standard output of a test that failed at prompt \<open>k\<close>, and its value.\<close>

definition ctx_text :: "int \<Rightarrow> string" where
  "ctx_text k = ''{'' @ dq ''failure'' @ '': {''
     @ dq ''prompt_index'' @ '': '' @ show_int k @ '', ''
     @ dq ''prompt_text'' @ '': '' @ dq ''find the page'' @ '', ''
     @ dq ''tools_called'' @ '': [], ''
     @ dq ''tool_assertions'' @ '': [], ''
     @ dq ''text_assertions'' @ '': [], ''
     @ dq ''quality'' @ '': '' @ dq ''low'' @ '', ''
     @ dq ''tool_accuracy'' @ '': '' @ dq ''none'' @ '', ''
     @ dq ''reasoning'' @ '': '' @ dq ''wrong tool'' @ '', ''
     @ dq ''refinement_suggestion'' @ '': '' @ dq ''improve the description'' @ ''}}''"

definition ctx_value :: "int \<Rightarrow> json" where
  "ctx_value k = JObj [(''failure'', JObj
     [(''prompt_index'', JInt k),
      (''prompt_text'', JStr ''find the page''),
      (''tools_called'', JArr []),
      (''tool_assertions'', JArr []),
      (''text_assertions'', JArr []),
      (''quality'', JStr ''low''),
      (''tool_accuracy'', JStr ''none''),
      (''reasoning'', JStr ''wrong tool''),
      (''refinement_suggestion'', JStr ''improve the description'')])]"

text \<open>The standard output of a fix agent that answers with session id \<open>sid\<close>.\<close>

definition agent_reply :: "string \<Rightarrow> string" where
  "agent_reply sid = ''{'' @ dq ''session_id'' @ '': '' @ dq sid @ '', ''
     @ dq ''result'' @ '': '' @ dq ''updated skills/page/SKILL.md'' @ ''}''"

text \<open>
  A world with the JSON reader and the example formatting, in which every path exists
  and no environment variable is set; the two processes are given.
\<close>

definition example_world :: "(nat \<Rightarrow> process) \<Rightarrow> (nat \<Rightarrow> process) \<Rightarrow> world" where
  "example_world tests fixes =
     \<lparr>loads = json_loads, fmt = show_json, dumps = show_repr,
      findall = (\<lambda>output. if py_in ''skills/page/SKILL.md'' output
                           then [''skills/page/SKILL.md''] else []),
      environ = (\<lambda>k. None), path_exists = (\<lambda>p. True), demo_parent = ''/home/dev'',
      test_process = tests, fix_process = fixes\<rparr>"

text \<open>
  Four attempts: the first test hangs, the second fails at prompt 0, the third at
  prompt 2, the fourth passes. The fix agent answers with session \<open>s1\<close>, then \<open>s2\<close>.
\<close>

definition four_tests :: "nat \<Rightarrow> process" where
  "four_tests a =
     (if a = 1 then Runs None 0 [] []
      else if a = 2 then Runs (Some 30) 1 (ctx_text 0) []
      else if a = 3 then Runs (Some 30) 1 (ctx_text 2) []
      else Runs (Some 30) 0 example_pass [])"

definition two_fixes :: "nat \<Rightarrow> process" where
  "two_fixes a =
     (if a = 2 then Runs (Some 20) 0 (agent_reply ''s1'') []
      else Runs (Some 20) 0 (agent_reply ''s2'') [])"

definition record_2 :: attempt_record where
  "record_2 = \<lparr>attempt = 2, files = [''skills/page/SKILL.md''], result = ''still failing'',
     error_summary = JStr ''improve the description''\<rparr>"

definition four_trace :: "event list" where
  "four_trace =
     [Iteration 1, Test_call 1 JNull JNull,
      Iteration 2, Test_call 2 JNull JNull, Fix_call 2 (ctx_value 0) JNull [],
      Iteration 3, Test_call 3 JNull (JInt 0), Fix_call 3 (ctx_value 2) (JStr ''s1'') [record_2],
      Iteration 4, Test_call 4 (JInt 1) (JInt 2)]"

text \<open>
  Three attempts: the first test fails at prompt 2, the second hangs, the third passes.
\<close>

definition three_tests :: "nat \<Rightarrow> process" where
  "three_tests a =
     (if a = 1 then Runs (Some 30) 1 (ctx_text 2) []
      else if a = 2 then Runs None 0 [] []
      else Runs (Some 30) 0 example_pass [])"

definition three_trace :: "event list" where
  "three_trace =
     [Iteration 1, Test_call 1 JNull JNull, Fix_call 1 (ctx_value 2) JNull [],
      Iteration 2, Test_call 2 (JInt 1) (JInt 2),
      Iteration 3, Test_call 3 (JInt 1) (JInt 2)]"

text \<open>
  Tests that always fail at prompt 2, tests that pass at once, a fix agent whose output
  is the JSON array \<open>[]\<close>, and a world in which no path exists.
\<close>

definition failing_tests :: "nat \<Rightarrow> process" where
  "failing_tests a = Runs (Some 30) 1 (ctx_text 2) []"

definition passing_tests :: "nat \<Rightarrow> process" where
  "passing_tests a = Runs (Some 30) 0 example_pass []"

definition array_agent :: "nat \<Rightarrow> process" where
  "array_agent a = Runs (Some 20) 0 ''[]'' []"

text \<open>
  A fix agent that answers with session \<open>s1\<close> in the first attempt and with a
  \<open>session_id\<close> that is \<open>null\<close> afterwards.
\<close>

definition null_reply :: string where
  "null_reply = ''{'' @ dq ''session_id'' @ '': null, '' @ dq ''result'' @ '': '' @ dq ''done''
     @ ''}''"

definition dropping_fixes :: "nat \<Rightarrow> process" where
  "dropping_fixes a =
     (if a = 1 then Runs (Some 20) 0 (agent_reply ''s1'') []
      else Runs (Some 20) 0 null_reply [])"

definition no_plugin_world :: world where
  "no_plugin_world = (example_world passing_tests two_fixes)\<lparr>path_exists := (\<lambda>p. False)\<rparr>"

section \<open>Properties\<close>

subsection \<open>Helper facts\<close>

lemma bind_err_Inr: "bind_err r f = Inr y \<longleftrightarrow> (\<exists>x. r = Inr x \<and> f x = Inr y)"
  by (cases r) (simp_all add: bind_err_def)

lemma bind_err_Inl: "bind_err r f = Inl e \<longleftrightarrow> (r = Inl e \<or> (\<exists>x. r = Inr x \<and> f x = Inl e))"
  by (cases r) (simp_all add: bind_err_def)

lemma accept_ctx_as_object:
  "decodes r \<Longrightarrow>
   accept_ctx r =
     Inr (case as_object r of
            None \<Rightarrow> None
          | Some ctx \<Rightarrow>
              Some (if dict_get ctx ''status'' JNull = JStr ''all_passed'' then (True, JNull)
                    else (False, JObj ctx)))"
  by (cases r rule: accept_ctx.cases) simp_all

lemma parse_test_output_propagates:
  assumes "lds (strip raw) = Inl e" and "e \<noteq> JSONDecodeError"
  shows "parse_test_output lds True rc raw = Inl e"
  using assms by (cases e) (simp_all add: parse_test_output_def Let_def bind_err_def)

lemma after_failure_cases:
  assumes "after_failure w mode verbose a s fix_ctx = (evs, st)"
  shows "(evs = [] \<and> (\<exists>e. st = Raise e))
       \<or> (evs = [Fix_call a fix_ctx (fix_session_id s) (attempt_history s)] \<and> (\<exists>e. st = Raise e))
       \<or> (evs = [Fix_call a fix_ctx (fix_session_id s) (attempt_history s)]
           \<and> (\<exists>fr. run_fix_agent w a fix_ctx mode verbose (fix_session_id s) (attempt_history s) = Inr fr
                 \<and> st = Continue \<lparr>fix_session_id = session_id fr,
                      attempt_history = attempt_history s @
                        [\<lparr>attempt = a, files = files_changed fr, result = ''still failing'',
                          error_summary = ctx_summary fix_ctx\<rparr>],
                      last_failing_prompt_index = ctx_index fix_ctx\<rparr>))"
  using assms
  unfolding after_failure_def ctx_index_def ctx_summary_def
  by (auto simp: bind_err_Inr bind_err_Inl split: sum.splits prod.splits if_splits)

lemma attempt_body_cases:
  assumes "attempt_body w mode verbose a s = (evs, st)"
  shows "(evs = [Iteration a] \<and> (\<exists>e. st = Raise e))
       \<or> (\<exists>f p. fork_args a (last_failing_prompt_index s) = Inr (f, p)
            \<and> ((evs = [Iteration a, Test_call a f p]
                 \<and> (\<exists>e. run_skill_test (loads w) True (test_process w a) = Inl e
                       \<and> st = Raise e))
               \<or> (\<exists>passed ctx.
                    run_skill_test (loads w) True (test_process w a) = Inr (passed, ctx)
                    \<and> ((passed \<and> evs = [Iteration a, Test_call a f p] \<and> st = Return True)
                       \<or> (\<not> passed \<and> \<not> truthy ctx \<and> evs = [Iteration a, Test_call a f p]
                           \<and> st = Continue s)
                       \<or> (\<not> passed \<and> truthy ctx
                           \<and> (\<exists>evs'. after_failure w mode verbose a s ctx = (evs', st)
                                 \<and> evs = [Iteration a, Test_call a f p] @ evs'))))))"
  using assms unfolding attempt_body_def
  by (auto split: sum.splits prod.splits if_splits)

lemma attempt_body_continue:
  assumes "attempt_body w mode verbose a s = (evs, Continue s'')"
  shows "\<exists>f p. fork_args a (last_failing_prompt_index s) = Inr (f, p)
          \<and> ((evs = [Iteration a, Test_call a f p] \<and> s'' = s)
             \<or> (\<exists>ctx fr.
                  evs = [Iteration a, Test_call a f p,
                         Fix_call a ctx (fix_session_id s) (attempt_history s)]
                  \<and> run_fix_agent w a ctx mode verbose (fix_session_id s) (attempt_history s)
                      = Inr fr
                  \<and> s'' = \<lparr>fix_session_id = session_id fr,
                       attempt_history = attempt_history s @
                         [\<lparr>attempt = a, files = files_changed fr, result = ''still failing'',
                           error_summary = ctx_summary ctx\<rparr>],
                       last_failing_prompt_index = ctx_index ctx\<rparr>))"
  using assms unfolding attempt_body_def
  by (auto split: sum.splits prod.splits if_splits dest!: after_failure_cases)

lemma attempt_body_events:
  assumes "attempt_body w mode verbose a s = (evs, st)"
  shows "evs = [Iteration a]
       \<or> (\<exists>f p. fork_args a (last_failing_prompt_index s) = Inr (f, p)
            \<and> (evs = [Iteration a, Test_call a f p]
               \<or> (\<exists>ctx. evs = [Iteration a, Test_call a f p,
                                Fix_call a ctx (fix_session_id s) (attempt_history s)])))"
proof -
  from attempt_body_cases [OF assms]
  consider "evs = [Iteration a]"
    | f p where "fork_args a (last_failing_prompt_index s) = Inr (f, p)"
        "evs = [Iteration a, Test_call a f p]"
    | f p ctx evs' where "fork_args a (last_failing_prompt_index s) = Inr (f, p)"
        "after_failure w mode verbose a s ctx = (evs', st)"
        "evs = [Iteration a, Test_call a f p] @ evs'"
    by blast
  then show ?thesis
  proof cases
    case 1 then show ?thesis by simp
  next
    case 2 then show ?thesis by blast
  next
    case 3
    from after_failure_cases [OF 3(2)]
    have "evs' = [] \<or> evs' = [Fix_call a ctx (fix_session_id s) (attempt_history s)]" by blast
    with 3(1,3) show ?thesis by auto
  qed
qed


lemma reaches_prepend:
  assumes "attempt_body w mode verbose a s = (evs, Continue s1)"
    and "reaches w mode verbose (Suc a) s1 tr a' s'"
  shows "reaches w mode verbose a s (evs @ tr) a' s'"
  using assms(2)
proof induction
  case start
  from reaches.later [OF reaches.start assms(1)] show ?case by simp
next
  case (later tr a' s' evs' s'')
  from reaches.later [OF later.IH later.hyps(2)] show ?case by simp
qed

lemma attempts_event:
  assumes "attempts w mode verbose a n s = (tr, r)" and "tr = pre @ x # post"
  shows "\<exists>tr0 a' s' evs st u v.
           reaches w mode verbose a s tr0 a' s'
           \<and> attempt_body w mode verbose a' s' = (evs, st)
           \<and> evs = u @ x # v \<and> pre = tr0 @ u"
  using assms
proof (induction n arbitrary: a s tr pre r)
  case 0
  then show ?case by simp
next
  case (Suc n)
  obtain evs st where ab: "attempt_body w mode verbose a s = (evs, st)"
    by (cases "attempt_body w mode verbose a s")
  have here: "evs = pre @ x # v \<Longrightarrow> ?case" for v
    using ab reaches.start [of w mode verbose a s] by fastforce
  show ?case
  proof (cases st)
    case (Return b)
    with Suc.prems ab have "evs = pre @ x # post" by simp
    then show ?thesis by (rule here)
  next
    case (Raise e)
    with Suc.prems ab have "evs = pre @ x # post" by simp
    then show ?thesis by (rule here)
  next
    case (Continue s1)
    obtain tr1 r1 where rest: "attempts w mode verbose (Suc a) n s1 = (tr1, r1)"
      by (cases "attempts w mode verbose (Suc a) n s1")
    with Suc.prems ab Continue have tr: "pre @ x # post = evs @ tr1" by simp
    then consider us where "pre = evs @ us" "tr1 = us @ x # post"
      | us where "evs = pre @ x # us"
      by (auto simp: append_eq_append_conv2 Cons_eq_append_conv)
    then show ?thesis
    proof cases
      case 1
      from Suc.IH [OF rest 1(2)] obtain tr0 a' s' evs' st' u v where
        r: "reaches w mode verbose (Suc a) s1 tr0 a' s'" and
        b: "attempt_body w mode verbose a' s' = (evs', st')" and
        e: "evs' = u @ x # v" and p: "us = tr0 @ u"
        by blast
      from reaches_prepend [OF ab [unfolded Continue] r]
      have "reaches w mode verbose a s (evs @ tr0) a' s'" .
      with b e p 1(1) show ?thesis by (metis append.assoc)
    next
      case 2
      then show ?thesis by (rule here)
    qed
  qed
qed

lemma last_recorded_append:
  "last_recorded idx (xs @ ys) = last_recorded (last_recorded idx xs) ys"
  by (induction idx xs rule: last_recorded.induct) simp_all

lemma reaches_index:
  assumes "reaches w mode verbose a s tr a' s'"
  shows "last_failing_prompt_index s' = last_recorded (last_failing_prompt_index s) tr"
  using assms
proof induction
  case start
  show ?case by simp
next
  case (later tr a' s' evs s'')
  from attempt_body_continue [OF later.hyps(2)] later.IH show ?case
    by (auto simp: last_recorded_append)
qed

lemma test_call_args:
  assumes "attempts w mode verbose a n s = (tr, r)" and "tr = pre @ Test_call b f p # post"
  shows "fork_args b (last_recorded (last_failing_prompt_index s) pre) = Inr (f, p)"
proof -
  from attempts_event [OF assms] obtain tr0 a' s' evs st u v where
    r: "reaches w mode verbose a s tr0 a' s'" and
    b: "attempt_body w mode verbose a' s' = (evs, st)" and
    e: "evs = u @ Test_call b f p # v" and p: "pre = tr0 @ u"
    by blast
  from attempt_body_events [OF b] e
  have "u = [Iteration a'] \<and> b = a' \<and> fork_args a' (last_failing_prompt_index s') = Inr (f, p)"
    by (auto simp: Cons_eq_append_conv append_eq_Cons_conv)
  with reaches_index [OF r] p show ?thesis
    by (simp add: last_recorded_append)
qed

lemma last_recorded_no_fix:
  "\<not> list_ex is_fix_call evs \<Longrightarrow> last_recorded idx evs = idx"
  by (induction idx evs rule: last_recorded.induct) simp_all

lemma reaches_attempts:
  assumes "reaches w mode verbose a s tr a' s'"
  shows "a \<le> a' \<and> (\<forall>e\<in>set tr. attempt_of e < a')"
  using assms
proof induction
  case start
  show ?case by simp
next
  case (later tr a' s' evs s'')
  from attempt_body_continue [OF later.hyps(2)] later.IH show ?case
    by (auto simp: less_Suc_eq)
qed

lemma four_run:
  "run_refinement_loop (example_world four_tests two_fixes) (Single Jira) 4 False
     = (four_trace, Inr True)"
  by code_simp

lemma three_run:
  "run_refinement_loop (example_world three_tests two_fixes) (Single Jira) 3 False
     = (three_trace, Inr True)"
  by code_simp

lemma last_fix_append:
  "last_fix (xs @ ys) = (case last_fix ys of Some x \<Rightarrow> Some x | None \<Rightarrow> last_fix xs)"
  by (induction xs) (auto split: option.splits)

lemma last_fix_none: "\<not> list_ex is_fix_call xs \<Longrightarrow> last_fix xs = None"
  by (induction xs) auto

lemma last_fix_split:
  "\<not> list_ex is_fix_call mid \<Longrightarrow> last_fix (pre @ Fix_call a c t h # mid) = Some (Fix_call a c t h)"
  by (simp add: last_fix_append last_fix_none)

lemma reaches_last_fix:
  assumes "reaches w mode verbose a s tr a' s'"
  shows "case last_fix tr of None \<Rightarrow> s' = s | Some e \<Rightarrow> state_after_fix w mode verbose e = Some s'"
  using assms
proof induction
  case start
  show ?case by simp
next
  case (later tr a' s' evs s'')
  from attempt_body_continue [OF later.hyps(2)]
  consider f p where "evs = [Iteration a', Test_call a' f p]" "s'' = s'"
    | f p ctx fr where
      "evs = [Iteration a', Test_call a' f p,
              Fix_call a' ctx (fix_session_id s') (attempt_history s')]"
      "run_fix_agent w a' ctx mode verbose (fix_session_id s') (attempt_history s') = Inr fr"
      "s'' = \<lparr>fix_session_id = session_id fr,
               attempt_history = attempt_history s' @
                 [\<lparr>attempt = a', files = files_changed fr, result = ''still failing'',
                   error_summary = ctx_summary ctx\<rparr>],
               last_failing_prompt_index = ctx_index ctx\<rparr>"
    by blast
  then show ?case
  proof cases
    case 1
    with later.IH show ?thesis by (auto simp: last_fix_append split: option.splits)
  next
    case 2
    then show ?thesis by (simp add: last_fix_append)
  qed
qed

lemma fix_call_args:
  assumes "attempts w mode verbose a n s = (tr, r)" and "tr = pre @ Fix_call b c t h # post"
  shows "\<exists>tr0 s' f p. reaches w mode verbose a s tr0 b s' \<and> pre = tr0 @ [Iteration b, Test_call b f p]
           \<and> t = fix_session_id s' \<and> h = attempt_history s'"
proof -
  from attempts_event [OF assms] obtain tr0 a' s' evs st u v where
    r: "reaches w mode verbose a s tr0 a' s'" and
    b: "attempt_body w mode verbose a' s' = (evs, st)" and
    e: "evs = u @ Fix_call b c t h # v" and p: "pre = tr0 @ u"
    by blast
  from attempt_body_events [OF b] e
  obtain f p where "u = [Iteration a', Test_call a' f p]" "b = a'"
    "t = fix_session_id s'" "h = attempt_history s'"
    by (auto simp: Cons_eq_append_conv append_eq_Cons_conv)
  with r p show ?thesis by blast
qed

lemma run_fix_agent_session:
  assumes "run_fix_agent w a c mode verbose sid hist = Inr fr"
  shows "session_id fr = sid
       \<or> (\<exists>cmd rc out err kvs v.
             fix_agent_command w mode verbose c sid hist = Inr cmd
             \<and> subprocess_run_args fix_agent_timeout cmd (fix_process w a)
                 = Completed rc out err
             \<and> loads w out = Inr (JObj kvs) \<and> map_of kvs ''session_id'' = Some v
             \<and> session_id fr = v)"
proof -
  from assms obtain cmd where bp: "fix_agent_command w mode verbose c sid hist = Inr cmd"
    by (auto simp: run_fix_agent_def bind_err_Inr)
  show ?thesis
  proof (cases "subprocess_run_args fix_agent_timeout cmd (fix_process w a)")
    case TimeoutExpired
    with assms bp show ?thesis
      by (auto simp: run_fix_agent_def bind_err_Inr)
  next
    case (Raised e)
    with assms bp show ?thesis
      by (auto simp: run_fix_agent_def bind_err_Inr)
  next
    case (Completed rc out err)
    with assms bp obtain tok where
      tok: "parse_fix_agent_output w out sid = Inr tok" and fr: "session_id fr = tok"
      by (auto simp: run_fix_agent_def bind_err_Inr)
    show ?thesis
    proof (cases "loads w out")
      case (Inl e)
      with tok fr show ?thesis by (simp add: parse_fix_agent_output_def split: if_splits)
    next
      case (Inr data)
      with tok obtain kvs where d: "data = JObj kvs" and t: "tok = dict_get kvs ''session_id'' sid"
        by (cases data) (auto simp: parse_fix_agent_output_def)
      show ?thesis
      proof (cases "map_of kvs ''session_id''")
        case None
        with t fr show ?thesis by (simp add: dict_get_def)
      next
        case (Some v)
        with t fr have "session_id fr = v" by (simp add: dict_get_def)
        with bp Completed \<open>loads w out = Inr data\<close> d Some show ?thesis by blast
      qed
    qed
  qed
qed

lemma reaches_history:
  assumes "reaches w mode verbose a s tr a' s'"
  shows "\<exists>es. attempt_history s' = attempt_history s @ es
            \<and> list_all2 (entry_matches w mode verbose) es (filter is_fix_call tr)
            \<and> sorted_wrt (<) (map attempt es)
            \<and> (\<forall>e\<in>set es. attempt e < a')"
  using assms
proof induction
  case start
  show ?case by simp
next
  case (later tr a' s' evs s'')
  from later.IH obtain es where
    h: "attempt_history s' = attempt_history s @ es" and
    m: "list_all2 (entry_matches w mode verbose) es (filter is_fix_call tr)" and
    o: "sorted_wrt (<) (map attempt es)" and
    b: "\<forall>e\<in>set es. attempt e < a'"
    by blast
  from attempt_body_continue [OF later.hyps(2)]
  consider f p where "evs = [Iteration a', Test_call a' f p]" "s'' = s'"
    | f p ctx fr where
      "evs = [Iteration a', Test_call a' f p,
              Fix_call a' ctx (fix_session_id s') (attempt_history s')]"
      "run_fix_agent w a' ctx mode verbose (fix_session_id s') (attempt_history s') = Inr fr"
      "s'' = \<lparr>fix_session_id = session_id fr,
               attempt_history = attempt_history s' @
                 [\<lparr>attempt = a', files = files_changed fr, result = ''still failing'',
                   error_summary = ctx_summary ctx\<rparr>],
               last_failing_prompt_index = ctx_index ctx\<rparr>"
    by blast
  then show ?case
  proof cases
    case 1
    with h m o b show ?thesis by (auto simp: less_Suc_eq)
  next
    case 2
    let ?e = "\<lparr>attempt = a', files = files_changed fr, result = ''still failing'',
                error_summary = ctx_summary ctx\<rparr>"
    have "attempt_history s'' = attempt_history s @ (es @ [?e])"
      using 2(3) h by simp
    moreover have "list_all2 (entry_matches w mode verbose) (es @ [?e])
                     (filter is_fix_call (tr @ evs))"
      using m 2(1,2) by (simp add: list_all2_appendI)
    moreover have "sorted_wrt (<) (map attempt (es @ [?e]))"
      using o b by (simp add: sorted_wrt_append)
    moreover have "\<forall>e\<in>set (es @ [?e]). attempt e < Suc a'"
      using b by (auto simp: less_Suc_eq)
    ultimately show ?thesis by blast
  qed
qed

lemma entries_still_failing:
  assumes "list_all2 (entry_matches w mode verbose) es evs"
  shows "\<forall>e\<in>set es. result e = ''still failing''"
  using assms
proof (induction rule: list_all2_induct)
  case Nil
  show ?case by simp
next
  case (Cons e es ev evs)
  from Cons.hyps(1) have "result e = ''still failing''" by (cases ev) simp_all
  with Cons.IH show ?case by simp
qed

lemma history_line_in_section:
  assumes "e \<in> set hist"
  shows "sublist (history_line w e) (history_section w hist)"
proof -
  from assms obtain xs ys where hist: "hist = xs @ e # ys"
    by (auto dest: split_list)
  have "history_section w hist =
          (nl @ ''## Previous Fix Attempts (this session)'' @ nl
             @ concat (map (history_line w) xs))
          @ history_line w e @ concat (map (history_line w) ys)"
    by (simp add: history_section_def hist)
  then show ?thesis unfolding sublist_def by blast
qed

lemma build_prompt_history:
  assumes "build_prompt w mode c hist = Inr prompt"
  shows "\<exists>before. prompt = before @ history_section w hist @ task_section"
proof -
  from assms obtain header files_text git_text where
    "prompt = header @ concat (map (platform_paths w) (get_required_platforms mode))
        @ nl @ ''Current relevant file contents:'' @ nl @ files_text @ git_text
        @ history_section w hist @ task_section"
    by (auto simp: build_prompt_def Let_def bind_err_Inr)
  then have "prompt = (header @ concat (map (platform_paths w) (get_required_platforms mode))
        @ nl @ ''Current relevant file contents:'' @ nl @ files_text @ git_text)
        @ history_section w hist @ task_section"
    by simp
  then show ?thesis by blast
qed

lemma history_rendered:
  assumes "build_prompt w mode c hist = Inr prompt" and "e \<in> set hist"
  shows "sublist (history_line w e) prompt"
proof -
  from build_prompt_history [OF assms(1)] obtain before where
    p: "prompt = before @ history_section w hist @ task_section" by blast
  from history_line_in_section [OF assms(2), of w] obtain ps ss where
    "history_section w hist = ps @ history_line w e @ ss"
    unfolding sublist_def by blast
  with p have "prompt = (before @ ps) @ history_line w e @ (ss @ task_section)" by simp
  then show ?thesis unfolding sublist_def by blast
qed

lemma attempt_body_one_iteration:
  assumes "attempt_body w mode verbose a s = (evs, st)"
  shows "length (filter is_iteration evs) = 1"
  using attempt_body_events [OF assms] by auto

lemma attempts_iterations:
  assumes "attempts w mode verbose a n s = (tr, r)"
  shows "length (filter is_iteration tr) \<le> n
       \<and> (r = Inr False \<longrightarrow> length (filter is_iteration tr) = n)"
  using assms
proof (induction n arbitrary: a s tr r)
  case 0
  then show ?case by simp
next
  case (Suc n)
  obtain evs st where ab: "attempt_body w mode verbose a s = (evs, st)"
    by (cases "attempt_body w mode verbose a s")
  note one = attempt_body_one_iteration [OF ab]
  show ?case
  proof (cases st)
    case (Return b)
    from attempt_body_cases [OF ab] Return have "b = True" by (auto dest: after_failure_cases)
    with Suc.prems ab Return one show ?thesis by auto
  next
    case (Raise e)
    with Suc.prems ab one show ?thesis by auto
  next
    case (Continue s1)
    obtain tr1 r1 where rest: "attempts w mode verbose (Suc a) n s1 = (tr1, r1)"
      by (cases "attempts w mode verbose (Suc a) n s1")
    with Suc.prems ab Continue have "tr = evs @ tr1" "r = r1" by simp_all
    with Suc.IH [OF rest] one show ?thesis by auto
  qed
qed

lemma attempts_success:
  assumes "attempts w mode verbose a n s = (tr, Inr True)"
  shows "\<exists>pre b f p ctx. tr = pre @ [Iteration b, Test_call b f p]
           \<and> run_skill_test (loads w) True (test_process w b) = Inr (True, ctx)"
  using assms
proof (induction n arbitrary: a s tr)
  case 0
  then show ?case by simp
next
  case (Suc n)
  obtain evs st where ab: "attempt_body w mode verbose a s = (evs, st)"
    by (cases "attempt_body w mode verbose a s")
  show ?case
  proof (cases st)
    case (Return b)
    with Suc.prems ab have tr: "tr = evs" by simp
    from attempt_body_cases [OF ab] Return
    obtain f p ctx where "run_skill_test (loads w) True (test_process w a) = Inr (True, ctx)"
      "evs = [Iteration a, Test_call a f p]"
      by (auto dest: after_failure_cases)
    with tr have "tr = [] @ [Iteration a, Test_call a f p]
        \<and> run_skill_test (loads w) True (test_process w a) = Inr (True, ctx)" by simp
    then show ?thesis by blast
  next
    case (Raise e)
    with Suc.prems ab show ?thesis by simp
  next
    case (Continue s1)
    obtain tr1 r1 where rest: "attempts w mode verbose (Suc a) n s1 = (tr1, r1)"
      by (cases "attempts w mode verbose (Suc a) n s1")
    with Suc.prems ab Continue have tr: "tr = evs @ tr1" and "r1 = Inr True" by simp_all
    with Suc.IH [of "Suc a" s1 tr1] rest
    obtain pre b f p ctx where "tr1 = pre @ [Iteration b, Test_call b f p]"
      "run_skill_test (loads w) True (test_process w b) = Inr (True, ctx)"
      by auto
    with tr have "tr = (evs @ pre) @ [Iteration b, Test_call b f p]
      \<and> run_skill_test (loads w) True (test_process w b) = Inr (True, ctx)" by simp
    then show ?thesis by blast
  qed
qed

lemma run_fix_agent_guarded:
  assumes "fix_agent_command w mode verbose c sid hist = Inr cmd"
  shows "(subprocess_run_args fix_agent_timeout cmd (fix_process w a) = TimeoutExpired
          \<longrightarrow> run_fix_agent w a c mode verbose sid hist
              = Inr \<lparr>success = False, files_changed = [], summary = ''Fix agent timed out'',
                     session_id = sid\<rparr>)
       \<and> (subprocess_run_args fix_agent_timeout cmd (fix_process w a) = Raised e
          \<longrightarrow> run_fix_agent w a c mode verbose sid hist
              = Inr \<lparr>success = False, files_changed = [], summary = ''Fix agent error: '' @ e,
                     session_id = sid\<rparr>)
       \<and> fix_agent_timeout \<noteq> skill_test_timeout"
  using assms
  by (simp add: run_fix_agent_def bind_err_def fix_agent_timeout_def skill_test_timeout_def)

subsection \<open>The test runner\<close>

text \<open>
  C8. The docker run is under a hard timeout of 600 seconds, and an execution that is
  cut off by it, because the process runs longer or never ends, or whose start raises,
  comes back to the controller as \<open>(False, None)\<close>: a failed run without a failure
  context, not a success and not an exception.
\<close>

theorem run_skill_test_timeout:
  "run_skill_test lds fc (Start_fails e) = Inr (False, JNull)
   \<and> run_skill_test lds fc (Runs None rc out err) = Inr (False, JNull)
   \<and> (600 < d \<longrightarrow> run_skill_test lds fc (Runs (Some d) rc out err) = Inr (False, JNull))"
  by (simp add: run_skill_test_def skill_test_timeout_def)

theorem run_skill_test_timeout_witness:
  "(600::nat) < 601
   \<and> run_skill_test json_loads True (Runs (Some 601) 0 example_pass []) = Inr (False, JNull)"
  using run_skill_test_timeout [of json_loads True "[]" 0 example_pass "[]" 601] by simp

text \<open>
  C3, as it holds. The extraction follows the strategy \<open>extractJson\<close>: (a) the whole
  trimmed text is parsed and is the result if it is an object; (b) if that parse fails
  with \<open>JSONDecodeError\<close> or gives a value that is not an object, the text from the first
  brace on is parsed and is the result if it is an object; (c) otherwise there is no
  structured result. An object with status \<open>all_passed\<close> is reported as a pass, any other
  object as the failure context. This is stated for the texts on which \<open>json.loads\<close>
  raises nothing but \<open>JSONDecodeError\<close>; what happens on another exception is left open.
  The three examples of the specification come out as stated.
\<close>

theorem extractJson_strategy:
  "(decodes_all lds raw \<longrightarrow>
      parse_test_output lds True rc raw =
        Inr (case extractJson lds raw of
               None \<Rightarrow> (False, JNull)
             | Some ctx \<Rightarrow>
                 if dict_get ctx ''status'' JNull = JStr ''all_passed'' then (True, JNull)
                 else (False, JObj ctx)))
   \<and> extractJson json_loads example_pass = Some [(''status'', JStr ''all_passed'')]
   \<and> parse_test_output json_loads True 0 example_pass = Inr (True, JNull)
   \<and> extractJson json_loads example_failure
       = Some [(''failure'', JObj [(''prompt_index'', JInt 2)])]
   \<and> parse_test_output json_loads True 0 example_failure
       = Inr (False, JObj [(''failure'', JObj [(''prompt_index'', JInt 2)])])
   \<and> extractJson json_loads example_garbage = None
   \<and> parse_test_output json_loads True 0 example_garbage = Inr (False, JNull)"
proof -
  have general: "parse_test_output lds True rc raw =
        Inr (case extractJson lds raw of
               None \<Rightarrow> (False, JNull)
             | Some ctx \<Rightarrow>
                 if dict_get ctx ''status'' JNull = JStr ''all_passed'' then (True, JNull)
                 else (False, JObj ctx))"
    if d: "decodes_all lds raw"
  proof -
    from d have d1: "decodes (lds (strip raw))"
      by (simp add: decodes_all_def Let_def)
    show ?thesis
    proof (cases "as_object (lds (strip raw))")
      case (Some obj)
      with d1 show ?thesis
        by (simp add: parse_test_output_def extractJson_def Let_def accept_ctx_as_object
            bind_err_def)
    next
      case None
      note first = this
      show ?thesis
      proof (cases "find_char (CHR ''{'') (strip raw)")
        case None
        with d1 first show ?thesis
          by (simp add: parse_test_output_def extractJson_def Let_def accept_ctx_as_object
              bind_err_def)
      next
        case (Some i)
        with d first have d2: "decodes (lds (drop i (strip raw)))"
          by (simp add: decodes_all_def Let_def)
        with d1 first Some show ?thesis
          by (cases "as_object (lds (drop i (strip raw)))")
            (simp_all add: parse_test_output_def extractJson_def Let_def accept_ctx_as_object
              bind_err_def)
      qed
    qed
  qed
  have e1: "extractJson json_loads example_pass = Some [(''status'', JStr ''all_passed'')]"
    by code_simp
  have p1: "parse_test_output json_loads True 0 example_pass = Inr (True, JNull)"
    by code_simp
  have e2: "extractJson json_loads example_failure
       = Some [(''failure'', JObj [(''prompt_index'', JInt 2)])]"
    by code_simp
  have p2: "parse_test_output json_loads True 0 example_failure
       = Inr (False, JObj [(''failure'', JObj [(''prompt_index'', JInt 2)])])"
    by code_simp
  have e3: "extractJson json_loads example_garbage = None"
    by code_simp
  have p3: "parse_test_output json_loads True 0 example_garbage = Inr (False, JNull)"
    by code_simp
  from general e1 p1 e2 p2 e3 p3 show ?thesis by blast
qed

theorem extractJson_strategy_witness:
  "decodes_all json_loads example_failure
   \<and> parse_test_output json_loads True 1 example_failure
       = Inr (case extractJson json_loads example_failure of
               None \<Rightarrow> (False, JNull)
             | Some ctx \<Rightarrow>
                 if dict_get ctx ''status'' JNull = JStr ''all_passed'' then (True, JNull)
                 else (False, JObj ctx))"
proof -
  have d: "decodes_all json_loads example_failure"
    by code_simp
  from extractJson_strategy [of json_loads example_failure 1, THEN conjunct1, rule_format, OF d] d
  show ?thesis by blast
qed

text \<open>
  The claim as written fails where the whole text is JSON but not an object: \<open>42\<close>
  parses, and still the extraction gives no structured result.
\<close>

theorem extractJson_non_object_counterexample:
  "json_loads ''42'' = Inr (JInt 42)
   \<and> parse_test_output json_loads True 0 ''42'' = Inr (False, JNull)"
  by code_simp

subsection \<open>Fork point and resume index\<close>

text \<open>
  C1. In every run and for every attempt after the first: when the last failing prompt
  index on record is \<open>k > 0\<close>, the test is called with fork point \<open>k - 1\<close> and prompt index
  \<open>k\<close>; when it is 0, the test is called without a fork point, with prompt index 0; when
  none is on record, the test is called with neither and runs from the beginning. The
  command of the docker run gets \<open>--fork-from\<close> and \<open>--prompt-index\<close> accordingly.
\<close>

theorem fork_point_of_attempt:
  assumes "run_refinement_loop w mode max_attempts verbose = (tr, r)"
    and "tr = pre @ Test_call a f p # post"
    and "1 < a"
  shows "(\<forall>k. last_recorded JNull pre = JInt k \<and> 0 < k \<longrightarrow> f = JInt (k - 1) \<and> p = JInt k)
       \<and> (last_recorded JNull pre = JInt 0 \<longrightarrow> f = JNull \<and> p = JInt 0)
       \<and> (last_recorded JNull pre = JNull \<longrightarrow> f = JNull \<and> p = JNull)
       \<and> (\<forall>k. resume_flags w (JInt (k - 1)) (JInt k)
                = '' --fork-from '' @ fmt w (JInt (k - 1)) @ '' --prompt-index '' @ fmt w (JInt k))
       \<and> resume_flags w JNull (JInt 0) = '' --prompt-index '' @ fmt w (JInt 0)
       \<and> resume_flags w JNull JNull = []"
proof -
  from assms(1) have "attempts w mode verbose 1 (nat max_attempts) initial_state = (tr, r)"
    by (simp add: run_refinement_loop_def)
  from test_call_args [OF this assms(2)]
  have "fork_args a (last_recorded JNull pre) = Inr (f, p)"
    by (simp add: initial_state_def)
  with assms(3) show ?thesis
    by (auto simp: fork_args_def bind_err_def resume_flags_def)
qed

theorem fork_point_of_attempt_witness:
  "run_refinement_loop (example_world four_tests two_fixes) (Single Jira) 4 False
     = (four_trace, Inr True)
   \<and> four_trace = take 9 four_trace @ Test_call 4 (JInt 1) (JInt 2) # []
   \<and> (1::nat) < 4
   \<and> last_recorded JNull (take 9 four_trace) = JInt 2
   \<and> four_trace = take 6 four_trace @ Test_call 3 JNull (JInt 0) # drop 7 four_trace
   \<and> (1::nat) < 3
   \<and> last_recorded JNull (take 6 four_trace) = JInt 0
   \<and> four_trace = take 3 four_trace @ Test_call 2 JNull JNull # drop 4 four_trace
   \<and> (1::nat) < 2
   \<and> last_recorded JNull (take 3 four_trace) = JNull
   \<and> resume_flags (example_world four_tests two_fixes) (JInt (2 - 1)) (JInt 2)
       = '' --fork-from '' @ fmt (example_world four_tests two_fixes) (JInt (2 - 1))
         @ '' --prompt-index '' @ fmt (example_world four_tests two_fixes) (JInt 2)"
proof -
  have s4: "four_trace = take 9 four_trace @ Test_call 4 (JInt 1) (JInt 2) # []"
    by (simp add: four_trace_def)
  have s3: "four_trace = take 6 four_trace @ Test_call 3 JNull (JInt 0) # drop 7 four_trace"
    by (simp add: four_trace_def)
  have s2: "four_trace = take 3 four_trace @ Test_call 2 JNull JNull # drop 4 four_trace"
    by (simp add: four_trace_def)
  have r4: "last_recorded JNull (take 9 four_trace) = JInt 2"
    by (simp add: four_trace_def ctx_index_def ctx_value_def dict_get_def)
  have r3: "last_recorded JNull (take 6 four_trace) = JInt 0"
    by (simp add: four_trace_def ctx_index_def ctx_value_def dict_get_def)
  have r2: "last_recorded JNull (take 3 four_trace) = JNull"
    by (simp add: four_trace_def)
  have l4: "(1::nat) < 4" and l3: "(1::nat) < 3" and l2: "(1::nat) < 2"
    by simp_all
  have c4: "\<forall>k. JInt 2 = JInt k \<and> 0 < k \<longrightarrow> JInt 1 = JInt (k - 1) \<and> JInt 2 = JInt k"
    using fork_point_of_attempt [OF four_run s4 l4, THEN conjunct1] unfolding r4 .
  have c3: "JInt 0 = JInt 0 \<longrightarrow> JNull = JNull \<and> JInt 0 = JInt 0"
    using fork_point_of_attempt [OF four_run s3 l3, THEN conjunct2, THEN conjunct1]
    unfolding r3 .
  have c2: "JNull = JNull \<longrightarrow> JNull = JNull \<and> JNull = JNull"
    using fork_point_of_attempt [OF four_run s2 l2, THEN conjunct2, THEN conjunct2,
        THEN conjunct1]
    unfolding r2 .
  have fl: "resume_flags (example_world four_tests two_fixes) (JInt (2 - 1)) (JInt 2)
       = '' --fork-from '' @ fmt (example_world four_tests two_fixes) (JInt (2 - 1))
         @ '' --prompt-index '' @ fmt (example_world four_tests two_fixes) (JInt 2)"
    using fork_point_of_attempt [OF four_run s4 l4, THEN conjunct2, THEN conjunct2,
        THEN conjunct2, THEN conjunct1]
    by (rule spec)
  from four_run s4 l4 r4 s3 l3 r3 s2 l2 r2 c4 c3 c2 fl show ?thesis
    by blast
qed

text \<open>
  C10. Only an attempt that fails with a failure context changes the index on record:
  an iteration that goes on without calling the fix agent leaves it as it was. So the
  fork point and the prompt index of a test are those of the latest failure that had
  a context, however many attempts without context lie in between, and as long as no
  attempt has had a context every test runs from the beginning.
\<close>

theorem index_only_from_context:
  assumes "run_refinement_loop w mode max_attempts verbose = (tr, r)"
  shows "(\<forall>pre b c t h mid a f p post.
            tr = pre @ Fix_call b c t h # mid @ Test_call a f p # post
            \<and> \<not> list_ex is_fix_call mid
            \<longrightarrow> b < a \<and> fork_args a (ctx_index c) = Inr (f, p))
       \<and> (\<forall>pre a f p post.
            tr = pre @ Test_call a f p # post \<and> \<not> list_ex is_fix_call pre
            \<longrightarrow> f = JNull \<and> p = JNull)
       \<and> (\<forall>a s evs s'.
            attempt_body w mode verbose a s = (evs, Continue s') \<and> \<not> list_ex is_fix_call evs
            \<longrightarrow> last_failing_prompt_index s' = last_failing_prompt_index s)"
proof (intro conjI allI impI)
  from assms have run: "attempts w mode verbose 1 (nat max_attempts) initial_state = (tr, r)"
    by (simp add: run_refinement_loop_def)
  {
    fix pre b c t h mid a f p post
    assume "tr = pre @ Fix_call b c t h # mid @ Test_call a f p # post
            \<and> \<not> list_ex is_fix_call mid"
    then have split: "tr = (pre @ Fix_call b c t h # mid) @ Test_call a f p # post"
      and mid: "\<not> list_ex is_fix_call mid" by simp_all
    from test_call_args [OF run split] mid
    show "fork_args a (ctx_index c) = Inr (f, p)"
      by (simp add: last_recorded_append last_recorded_no_fix)
    from attempts_event [OF run split] obtain tr0 a' s' evs st u v where
      r: "reaches w mode verbose 1 initial_state tr0 a' s'" and
      b: "attempt_body w mode verbose a' s' = (evs, st)" and
      e: "evs = u @ Test_call a f p # v" and p: "pre @ Fix_call b c t h # mid = tr0 @ u"
      by blast
    from attempt_body_events [OF b] e have u: "u = [Iteration a'] \<and> a = a'"
      by (auto simp: Cons_eq_append_conv append_eq_Cons_conv)
    have "Fix_call b c t h \<in> set (tr0 @ u)" by (simp flip: p)
    with u have "Fix_call b c t h \<in> set tr0" by auto
    with reaches_attempts [OF r] u show "b < a" by fastforce
  next
    fix pre a f p post
    assume "tr = pre @ Test_call a f p # post \<and> \<not> list_ex is_fix_call pre"
    then have split: "tr = pre @ Test_call a f p # post"
      and pre: "\<not> list_ex is_fix_call pre" by simp_all
    from test_call_args [OF run split] pre
    have "fork_args a JNull = Inr (f, p)"
      by (simp add: last_recorded_no_fix initial_state_def)
    then show "f = JNull" and "p = JNull" by (simp_all add: fork_args_def)
  }
next
  fix a s evs s'
  assume "attempt_body w mode verbose a s = (evs, Continue s') \<and> \<not> list_ex is_fix_call evs"
  then have b: "attempt_body w mode verbose a s = (evs, Continue s')"
    and e: "\<not> list_ex is_fix_call evs" by simp_all
  from attempt_body_continue [OF b] e
  show "last_failing_prompt_index s' = last_failing_prompt_index s" by auto
qed

theorem index_only_from_context_witness:
  "run_refinement_loop (example_world three_tests two_fixes) (Single Jira) 3 False
     = (three_trace, Inr True)
   \<and> three_trace = take 2 three_trace @ Fix_call 1 (ctx_value 2) JNull []
       # [Iteration 2, Test_call 2 (JInt 1) (JInt 2), Iteration 3]
       @ Test_call 3 (JInt 1) (JInt 2) # []
   \<and> \<not> list_ex is_fix_call [Iteration 2, Test_call 2 (JInt 1) (JInt 2), Iteration 3]
   \<and> (1::nat) < 3
   \<and> fork_args 3 (ctx_index (ctx_value 2)) = Inr (JInt 1, JInt 2)"
proof -
  have split: "three_trace = take 2 three_trace @ Fix_call 1 (ctx_value 2) JNull []
       # [Iteration 2, Test_call 2 (JInt 1) (JInt 2), Iteration 3]
       @ Test_call 3 (JInt 1) (JInt 2) # []"
    by (simp add: three_trace_def)
  have mid: "\<not> list_ex is_fix_call [Iteration 2, Test_call 2 (JInt 1) (JInt 2), Iteration 3]"
    by simp
  have concl: "(1::nat) < 3 \<and> fork_args 3 (ctx_index (ctx_value 2)) = Inr (JInt 1, JInt 2)"
    by (rule index_only_from_context [OF three_run, THEN conjunct1, rule_format,
          OF conjI [OF split mid]])
  from three_run split mid concl show ?thesis
    by blast
qed

subsection \<open>Attempts without a failure context\<close>

text \<open>
  C5, as it holds. An attempt whose test fails without a failure context calls the test
  and nothing else: the fix agent is not called, the state of the loop, its attempt
  history included, stays as it was, and the loop goes on with the next attempt.
\<close>

theorem attempt_without_context:
  assumes "run_skill_test (loads w) True (test_process w a) = Inr (False, ctx)"
    and "\<not> truthy ctx"
    and "fork_args a (last_failing_prompt_index s) = Inr (f, p)"
  shows "attempt_body w mode verbose a s = ([Iteration a, Test_call a f p], Continue s)
       \<and> attempts w mode verbose a (Suc n) s =
           (case attempts w mode verbose (Suc a) n s of
              (evs, r) \<Rightarrow> ([Iteration a, Test_call a f p] @ evs, r))"
proof -
  from assms have "attempt_body w mode verbose a s = ([Iteration a, Test_call a f p], Continue s)"
    by (simp add: attempt_body_def)
  then show ?thesis by simp
qed

theorem attempt_without_context_witness:
  "run_skill_test (loads (example_world four_tests two_fixes)) True
       (test_process (example_world four_tests two_fixes) 1) = Inr (False, JNull)
   \<and> \<not> truthy JNull
   \<and> fork_args 1 (last_failing_prompt_index initial_state) = Inr (JNull, JNull)
   \<and> attempt_body (example_world four_tests two_fixes) (Single Jira) False 1 initial_state
       = ([Iteration 1, Test_call 1 JNull JNull], Continue initial_state)"
proof -
  have t: "run_skill_test (loads (example_world four_tests two_fixes)) True
       (test_process (example_world four_tests two_fixes) 1) = Inr (False, JNull)"
    by (simp add: example_world_def four_tests_def run_skill_test_def)
  have n: "\<not> truthy JNull" by simp
  have f: "fork_args 1 (last_failing_prompt_index initial_state) = Inr (JNull, JNull)"
    by (simp add: fork_args_def)
  from attempt_without_context [OF t n f, of "Single Jira" False 0] t n f
  show ?thesis by simp
qed

text \<open>
  The claim as written fails: after a first attempt without context the attempt history
  is what it was before, empty.
\<close>

theorem attempt_without_context_counterexample:
  "attempt_body (example_world four_tests two_fixes) (Single Jira) False 1 initial_state
     = ([Iteration 1, Test_call 1 JNull JNull], Continue initial_state)
   \<and> attempt_history initial_state = []"
  by (simp add: attempt_body_def fork_args_def initial_state_def example_world_def
      four_tests_def run_skill_test_def)

subsection \<open>The session of the fix agent\<close>

text \<open>
  What the loop does with the session id: the first call of the fix agent in a run is
  made without one. Of two calls that follow each other, the later one is passed the
  session id the earlier one returned, and that is the id the earlier call was given
  itself, unless the output of the earlier agent is a JSON object with a \<open>session_id\<close>
  member, in which case it is the value of that member, whatever it is.
\<close>

lemma session_id_of_next_call:
  assumes "run_refinement_loop w mode max_attempts verbose = (tr, r)"
  shows "(\<forall>pre a c t h post.
            tr = pre @ Fix_call a c t h # post \<and> \<not> list_ex is_fix_call pre \<longrightarrow> t = JNull)
       \<and> (\<forall>pre a1 c1 t1 h1 mid a2 c2 t2 h2 post.
            tr = pre @ Fix_call a1 c1 t1 h1 # mid @ Fix_call a2 c2 t2 h2 # post
            \<and> \<not> list_ex is_fix_call mid
            \<longrightarrow> (\<exists>fr. run_fix_agent w a1 c1 mode verbose t1 h1 = Inr fr \<and> t2 = session_id fr
                   \<and> (t2 = t1
                      \<or> (\<exists>cmd rc out err kvs.
                            fix_agent_command w mode verbose c1 t1 h1 = Inr cmd
                            \<and> subprocess_run_args fix_agent_timeout cmd (fix_process w a1)
                                = Completed rc out err
                            \<and> loads w out = Inr (JObj kvs)
                            \<and> map_of kvs ''session_id'' = Some t2))))
       \<and> (\<forall>prompt t. truthy t
            \<longrightarrow> fix_agent_cmd prompt t = fix_agent_cmd prompt JNull @ [JStr ''--resume'', t])"
proof (intro conjI allI impI)
  show "fix_agent_cmd prompt t = fix_agent_cmd prompt JNull @ [JStr ''--resume'', t]"
    if "truthy t" for prompt t
    using that by (simp add: fix_agent_cmd_def)
next
  from assms have run: "attempts w mode verbose 1 (nat max_attempts) initial_state = (tr, r)"
    by (simp add: run_refinement_loop_def)
  {
    fix pre a c t h post
    assume "tr = pre @ Fix_call a c t h # post \<and> \<not> list_ex is_fix_call pre"
    then have split: "tr = pre @ Fix_call a c t h # post" and pre: "\<not> list_ex is_fix_call pre"
      by simp_all
    from fix_call_args [OF run split] obtain tr0 s' f p where
      r: "reaches w mode verbose 1 initial_state tr0 a s'" and
      p: "pre = tr0 @ [Iteration a, Test_call a f p]" and t: "t = fix_session_id s'"
      by blast
    from pre p have "last_fix tr0 = None" by (simp add: last_fix_none)
    with reaches_last_fix [OF r] t show "t = JNull" by (simp add: initial_state_def)
  next
    fix pre a1 c1 t1 h1 mid a2 c2 t2 h2 post
    assume "tr = pre @ Fix_call a1 c1 t1 h1 # mid @ Fix_call a2 c2 t2 h2 # post
            \<and> \<not> list_ex is_fix_call mid"
    then have split: "tr = (pre @ Fix_call a1 c1 t1 h1 # mid) @ Fix_call a2 c2 t2 h2 # post"
      and mid: "\<not> list_ex is_fix_call mid" by simp_all
    from fix_call_args [OF run split] obtain tr0 s' f p where
      r: "reaches w mode verbose 1 initial_state tr0 a2 s'" and
      p: "pre @ Fix_call a1 c1 t1 h1 # mid = tr0 @ [Iteration a2, Test_call a2 f p]" and
      t: "t2 = fix_session_id s'"
      by blast
    have "last_fix (tr0 @ [Iteration a2, Test_call a2 f p]) = Some (Fix_call a1 c1 t1 h1)"
      using last_fix_split [OF mid] by (simp flip: p)
    then have "last_fix tr0 = Some (Fix_call a1 c1 t1 h1)"
      by (simp add: last_fix_append)
    with reaches_last_fix [OF r]
    have "state_after_fix w mode verbose (Fix_call a1 c1 t1 h1) = Some s'" by simp
    then obtain fr where fr: "run_fix_agent w a1 c1 mode verbose t1 h1 = Inr fr"
      and s': "fix_session_id s' = session_id fr"
      by (auto split: sum.splits)
    from run_fix_agent_session [OF fr] fr s' t
    show "\<exists>fr. run_fix_agent w a1 c1 mode verbose t1 h1 = Inr fr \<and> t2 = session_id fr
                   \<and> (t2 = t1
                      \<or> (\<exists>cmd rc out err kvs.
                            fix_agent_command w mode verbose c1 t1 h1 = Inr cmd
                            \<and> subprocess_run_args fix_agent_timeout cmd (fix_process w a1)
                                = Completed rc out err
                            \<and> loads w out = Inr (JObj kvs)
                            \<and> map_of kvs ''session_id'' = Some t2))"
      by auto
  }
qed

text \<open>
  C4. The claim is that a session id, once obtained, is passed unchanged to every later
  call of the fix agent unless a call returns a new one. Here every test fails with a
  context; the agent of attempt 1 answers with session \<open>s1\<close>, and the agent of attempt 2
  answers with a JSON object whose \<open>session_id\<close> is \<open>null\<close>. No new id has been returned,
  and still the call of attempt 3 is made without a session id, so without \<open>--resume\<close>:
  \<open>output_data.get("session_id", default_session_id)\<close> falls back to the old id only
  when the member is absent.
\<close>

theorem null_session_id_drops_token:
  "json_loads null_reply = Inr (JObj [(''session_id'', JNull), (''result'', JStr ''done'')])
   \<and> fix_tokens (fst (run_refinement_loop (example_world failing_tests dropping_fixes)
                        (Single Jira) 3 False))
       = [(1, JNull), (2, JStr ''s1''), (3, JNull)]
   \<and> snd (run_refinement_loop (example_world failing_tests dropping_fixes) (Single Jira) 3
            False) = Inr False
   \<and> fix_agent_cmd ''p'' JNull
       = [JStr ''claude'', JStr ''-p'', JStr ''p'', JStr ''--model'', JStr ''sonnet'',
          JStr ''--dangerously-skip-permissions'', JStr ''--output-format'', JStr ''json'']"
  by code_simp

subsection \<open>The attempt history\<close>

text \<open>
  C6, as it holds. The attempt history passed to a call of the fix agent has one entry
  for every earlier call of the fix agent in the run, that is for every earlier attempt
  that failed with a failure context, in the order of the attempts; every entry carries
  the number of its attempt, the label \<open>still failing\<close> and the files that call reported
  as changed. The prompt in the command of the call ends with the heading
  \<open>## Previous Fix Attempts (this session)\<close>, one line \<open>- Attempt n: Changed [...],
  Result: still failing\<close> for every entry in order (the files only when there are some,
  and an \<open>Error:\<close> line when there is a summary), and the task section.
\<close>

theorem history_of_fix_attempts:
  assumes "run_refinement_loop w mode max_attempts verbose = (tr, r)"
    and "tr = pre @ Fix_call a c t h # post"
  shows "list_all2 (entry_matches w mode verbose) h (filter is_fix_call pre)
       \<and> sorted_wrt (<) (map attempt h)
       \<and> (\<forall>e\<in>set h. attempt e < a)
       \<and> (\<forall>cmd. fix_agent_command w mode verbose c t h = Inr cmd \<longrightarrow>
            (\<exists>before.
               command_prompt (Inr cmd) =
                 Some (before
                   @ (if h = [] then []
                      else nl @ ''## Previous Fix Attempts (this session)'' @ nl)
                   @ concat (map (\<lambda>e.
                       ''- Attempt '' @ fmt w (JInt (int (attempt e))) @ '': ''
                       @ (if files e \<noteq> []
                          then ''Changed '' @ fmt w (JArr (map JStr (files e))) @ '', ''
                          else [])
                       @ ''Result: still failing'' @ nl
                       @ (if truthy (error_summary e)
                          then ''  Error: '' @ fmt w (error_summary e) @ nl else [])) h)
                   @ task_section)))"
proof -
  from assms(1) have run: "attempts w mode verbose 1 (nat max_attempts) initial_state = (tr, r)"
    by (simp add: run_refinement_loop_def)
  from fix_call_args [OF run assms(2)] obtain tr0 s' f p where
    r: "reaches w mode verbose 1 initial_state tr0 a s'" and
    p: "pre = tr0 @ [Iteration a, Test_call a f p]" and h: "h = attempt_history s'"
    by blast
  from reaches_history [OF r] h obtain es where
    "h = es" "list_all2 (entry_matches w mode verbose) es (filter is_fix_call tr0)"
    "sorted_wrt (<) (map attempt es)" "\<forall>e\<in>set es. attempt e < a"
    by (auto simp: initial_state_def)
  with p have m: "list_all2 (entry_matches w mode verbose) h (filter is_fix_call pre)"
    and o: "sorted_wrt (<) (map attempt h)" and b: "\<forall>e\<in>set h. attempt e < a"
    by simp_all
  from entries_still_failing [OF m] have lines:
    "map (history_line w) h =
       map (\<lambda>e.
          ''- Attempt '' @ fmt w (JInt (int (attempt e))) @ '': ''
          @ (if files e \<noteq> []
             then ''Changed '' @ fmt w (JArr (map JStr (files e))) @ '', ''
             else [])
          @ ''Result: still failing'' @ nl
          @ (if truthy (error_summary e)
             then ''  Error: '' @ fmt w (error_summary e) @ nl else [])) h"
    by (simp add: history_line_def)
  have "\<exists>before.
          command_prompt (Inr cmd) =
            Some (before
              @ (if h = [] then []
                 else nl @ ''## Previous Fix Attempts (this session)'' @ nl)
              @ concat (map (\<lambda>e.
                  ''- Attempt '' @ fmt w (JInt (int (attempt e))) @ '': ''
                  @ (if files e \<noteq> []
                     then ''Changed '' @ fmt w (JArr (map JStr (files e))) @ '', ''
                     else [])
                  @ ''Result: still failing'' @ nl
                  @ (if truthy (error_summary e)
                     then ''  Error: '' @ fmt w (error_summary e) @ nl else [])) h)
              @ task_section)"
    if c: "fix_agent_command w mode verbose c t h = Inr cmd" for cmd
  proof -
    from c obtain prompt where bp: "build_prompt w mode c h = Inr prompt"
      and cmd: "cmd = fix_agent_cmd prompt t"
      by (auto simp: fix_agent_command_def bind_err_Inr)
    from build_prompt_history [OF bp] obtain before where
      "prompt = before @ history_section w h @ task_section" by blast
    then have "prompt = before
        @ (if h = [] then [] else nl @ ''## Previous Fix Attempts (this session)'' @ nl)
        @ concat (map (history_line w) h) @ task_section"
      by (simp add: history_section_def)
    moreover from cmd have "command_prompt (Inr cmd) = Some prompt"
      by (simp add: fix_agent_cmd_def)
    ultimately show ?thesis unfolding lines by blast
  qed
  with m o b show ?thesis by blast
qed

theorem history_of_fix_attempts_witness:
  "run_refinement_loop (example_world four_tests two_fixes) (Single Jira) 4 False
     = (four_trace, Inr True)
   \<and> four_trace = take 7 four_trace @ Fix_call 3 (ctx_value 2) (JStr ''s1'') [record_2]
       # drop 8 four_trace
   \<and> filter is_fix_call (take 7 four_trace) = [Fix_call 2 (ctx_value 0) JNull []]
   \<and> list_all2 (entry_matches (example_world four_tests two_fixes) (Single Jira) False)
        [record_2] (filter is_fix_call (take 7 four_trace))
   \<and> sorted_wrt (<) (map attempt [record_2])
   \<and> (case command_prompt (fix_agent_command (example_world four_tests two_fixes)
              (Single Jira) False (ctx_value 2) (JStr ''s1'') [record_2]) of
        None \<Rightarrow> False
      | Some prompt \<Rightarrow>
          sublist (nl @ ''## Previous Fix Attempts (this session)'' @ nl
                   @ ''- Attempt 2: Changed ['' @ [CHR 0x27] @ ''skills/page/SKILL.md''
                   @ [CHR 0x27] @ ''], Result: still failing'' @ nl
                   @ ''  Error: improve the description'' @ nl
                   @ nl @ nl @ ''## Your Task'') prompt)"
proof -
  have split: "four_trace = take 7 four_trace @ Fix_call 3 (ctx_value 2) (JStr ''s1'') [record_2]
       # drop 8 four_trace"
    by (simp add: four_trace_def)
  have fx: "filter is_fix_call (take 7 four_trace) = [Fix_call 2 (ctx_value 0) JNull []]"
    by (simp add: four_trace_def)
  have pr: "case command_prompt (fix_agent_command (example_world four_tests two_fixes)
              (Single Jira) False (ctx_value 2) (JStr ''s1'') [record_2]) of
        None \<Rightarrow> False
      | Some prompt \<Rightarrow>
          sublist (nl @ ''## Previous Fix Attempts (this session)'' @ nl
                   @ ''- Attempt 2: Changed ['' @ [CHR 0x27] @ ''skills/page/SKILL.md''
                   @ [CHR 0x27] @ ''], Result: still failing'' @ nl
                   @ ''  Error: improve the description'' @ nl
                   @ nl @ nl @ ''## Your Task'') prompt"
    by code_simp
  note c = history_of_fix_attempts [OF four_run split]
  from four_run split fx c [THEN conjunct1] c [THEN conjunct2, THEN conjunct1] pr
  show ?thesis by blast
qed

text \<open>
  The claim as written fails: the first attempt of this run ended without a context, and
  the call of the fix agent in the second attempt is passed an empty history.
\<close>

theorem history_of_fix_attempts_counterexample:
  "run_refinement_loop (example_world four_tests two_fixes) (Single Jira) 4 False
     = (four_trace, Inr True)
   \<and> four_trace ! 1 = Test_call 1 JNull JNull
   \<and> four_trace ! 4 = Fix_call 2 (ctx_value 0) JNull []"
  using four_run by (simp add: four_trace_def)

subsection \<open>Exceptions that leave the fix agent\<close>

text \<open>
  C7. The claim is that a call of the fix agent never raises. Here the process of the
  agent ends in time with return code 0 and prints the JSON array \<open>[]\<close>:
  \<open>_parse_fix_agent_output\<close> calls \<open>get\<close> on the list, and the \<open>AttributeError\<close>
  leaves \<open>run_fix_agent\<close>.
\<close>

theorem fix_agent_raises_on_array_output:
  "subprocess_run fix_agent_timeout (fix_process (example_world failing_tests array_agent) 1)
     = Completed 0 ''[]'' []
   \<and> json_loads ''[]'' = Inr (JArr [])
   \<and> run_fix_agent (example_world failing_tests array_agent) 1 (ctx_value 2) (Single Jira)
        False JNull [] = Inl AttributeError"
  by code_simp

text \<open>
  C2. The claim is that a run in which no attempt passes ends after exactly
  \<open>max_attempts\<close> iterations with the result \<open>False\<close>. With three attempts allowed, a
  test that fails with a context and the same output of the fix agent, the exception
  ends the run in the first iteration.
\<close>

theorem loop_raises_on_array_output:
  "run_refinement_loop (example_world failing_tests array_agent) (Single Jira) 3 False
     = ([Iteration 1, Test_call 1 JNull JNull, Fix_call 1 (ctx_value 2) JNull []],
        Inl AttributeError)"
  by code_simp

subsection \<open>Setup errors\<close>

text \<open>
  C9, as it holds. When the plugin of a required platform is in neither of its two
  places, \<open>main\<close> exits with status 1 before the loop starts, and no attempt is run. When
  all plugins are found the loop is run whatever the environment holds: an unset
  credential only adds a warning.
\<close>

theorem setup_errors:
  "(list_ex (plugin_missing w) (get_required_platforms mode)
      \<longrightarrow> main w mode max_attempts verbose = ([], [], Inr 1))
   \<and> (\<not> list_ex (plugin_missing w) (get_required_platforms mode)
      \<longrightarrow> fst (main w mode max_attempts verbose) = credential_warnings w mode
        \<and> fst (snd (main w mode max_attempts verbose))
            = fst (run_refinement_loop w mode max_attempts verbose))"
  by (auto simp: main_def split: prod.splits sum.splits)

theorem setup_errors_witness:
  "list_ex (plugin_missing no_plugin_world) (get_required_platforms Cross_platform)
   \<and> main no_plugin_world Cross_platform 3 False = ([], [], Inr 1)"
proof -
  have m: "list_ex (plugin_missing no_plugin_world) (get_required_platforms Cross_platform)"
    by (simp add: no_plugin_world_def plugin_missing_def Let_def CROSS_PLATFORM_REQUIRED_def)
  from setup_errors [of no_plugin_world Cross_platform 3 False, THEN conjunct1, rule_format, OF m] m
  show ?thesis by blast
qed

text \<open>
  The claim as written fails for credentials: with no \<open>JIRA_API_TOKEN\<close> in the
  environment the run takes place, and here it exits with status 0.
\<close>

theorem missing_credentials_counterexample:
  "environ (example_world passing_tests two_fixes) ''JIRA_API_TOKEN'' = None
   \<and> main (example_world passing_tests two_fixes) (Single Jira) 3 False
       = ([''Warning: JIRA_API_TOKEN not set for jira''],
          [Iteration 1, Test_call 1 JNull JNull], Inr 0)"
  by code_simp

end
